theory Spec2Isabelle
  imports Complex_Main
begin

section \<open>Conventions of the embedding\<close>

text \<open>
  The repository holds two copies of one engine: \<^verbatim>\<open>src/game.js\<close> and the
  later \<^verbatim>\<open>src/unnamed/part_000\<close>, which adds touch controls and a richer particle
  system. Every function below is translated from the source; where the two files differ
  the function takes the \<open>build\<close> and branches on it, so a statement proved for every
  build holds of both files.

  JavaScript numbers are modelled as follows: counters that the code only increments,
  decrements or compares (score, lives, combo, frame count, particle life) are integers
  or naturals; coordinates, speeds and sizes are reals. The real numbers are exact where
  the doubles of the engine round, so a statement such as \<open>12 + 0.3 > 12\<close> is read
  in exact arithmetic.

  The fields \<^verbatim>\<open>x\<close> and \<^verbatim>\<open>y\<close> of the source objects are called \<open>xpos\<close> and
  \<open>ypos\<close>, and fields that several classes share (\<^verbatim>\<open>color\<close>, \<^verbatim>\<open>type\<close>,
  \<^verbatim>\<open>size\<close>, \<^verbatim>\<open>floatPhase\<close>) carry a prefix: a record field is a constant of the
  theory. A method \<^verbatim>\<open>m\<close> of class \<^verbatim>\<open>K\<close> is the function \<open>K_m\<close>. The canvas, the
  DOM, the audio synthesis, the camera shake and the scrolling background are written by
  the engine and read by none of its rules; they are left out. \<^verbatim>\<open>localStorage\<close> is
  read by the constructors only, and what they read is a parameter of \<open>GameEngine_new\<close>.
\<close>

datatype build = Original | Enhanced

subsection \<open>Math.random\<close>

text \<open>
  \<^verbatim>\<open>Math.random()\<close> returns a number in the half-open interval from 0 to 1. Its
  results are inputs of the model, and their type carries the contract.
\<close>

typedef rand01 = "{r::real. 0 \<le> r \<and> r < 1}"
  by (intro exI[of _ 0]) simp

text \<open>\<^verbatim>\<open>Math.floor(Math.random() * n)\<close>\<close>

definition randomIndex :: "rand01 \<Rightarrow> nat \<Rightarrow> nat" where
  "randomIndex r n = nat \<lfloor>Rep_rand01 r * real n\<rfloor>"

section \<open>Rectangles and the collision predicate\<close>

record rect =
  xpos :: real
  ypos :: real
  width :: real
  height :: real

text \<open>
  \<^verbatim>\<open>ObstacleManager.isColliding(rect1, rect2)\<close>. The source passes any object with
  the four fields, so the arguments are record schemes.
\<close>

definition isColliding :: "'a rect_scheme \<Rightarrow> 'b rect_scheme \<Rightarrow> bool" where
  "isColliding rect1 rect2 =
     (xpos rect1 < xpos rect2 + width rect2 \<and>
      xpos rect1 + width rect1 > xpos rect2 \<and>
      ypos rect1 < ypos rect2 + height rect2 \<and>
      ypos rect1 + height rect1 > ypos rect2)"

section \<open>Player\<close>

text \<open>
  The constructor sets \<^verbatim>\<open>gravity\<close>, \<^verbatim>\<open>jumpForce\<close> and \<^verbatim>\<open>groundY\<close> once and no
  code writes them again: they are constants here.
\<close>

definition gravity :: real where "gravity = 0.6"
definition jumpForce :: real where "jumpForce = - 13"
definition groundY :: real where "groundY = 380"

record player = rect +
  initialX :: real
  initialY :: real
  velocityY :: real
  jumping :: bool
  sliding :: bool
  slideTimer :: int
  invincible :: bool

definition Player_new :: "real \<Rightarrow> real \<Rightarrow> player" where
  "Player_new x0 y0 =
     \<lparr>xpos = x0, ypos = y0, width = 32, height = 32,
      initialX = x0, initialY = y0, velocityY = 0,
      jumping = False, sliding = False, slideTimer = 0, invincible = False\<rparr>"

definition Player_reset :: "player \<Rightarrow> player" where
  "Player_reset p =
     p\<lparr>xpos := initialX p, ypos := initialY p, velocityY := 0,
       jumping := False, sliding := False, slideTimer := 0, invincible := False\<rparr>"

definition Player_jump :: "player \<Rightarrow> player" where
  "Player_jump p = p\<lparr>velocityY := jumpForce, jumping := True\<rparr>"

definition Player_slide :: "player \<Rightarrow> player" where
  "Player_slide p = p\<lparr>sliding := True, height := 16, slideTimer := 20\<rparr>"

definition Player_update :: "player \<Rightarrow> player" where
  "Player_update p =
     (let p1 = (if sliding p
                then (let q = p\<lparr>slideTimer := slideTimer p - 1\<rparr>
                      in if slideTimer q \<le> 0 then q\<lparr>sliding := False, height := 32\<rparr> else q)
                else p);
          p2 = p1\<lparr>velocityY := velocityY p1 + gravity\<rparr>;
          p3 = p2\<lparr>ypos := ypos p2 + velocityY p2\<rparr>
      in if ypos p3 \<ge> groundY
         then p3\<lparr>ypos := groundY, velocityY := 0, jumping := False\<rparr>
         else p3)"

definition Player_getBounds :: "player \<Rightarrow> rect" where
  "Player_getBounds p =
     \<lparr>xpos = xpos p, ypos = ypos p, width = width p, height = height p\<rparr>"

section \<open>Obstacles\<close>

datatype okind = Bug | Conflict | Spike

record obstacleType =
  ot_kind :: okind
  ot_width :: real
  ot_height :: real
  ot_y :: real
  ot_color :: string

record obstacle = rect +
  kind :: okind
  color :: string

text \<open>\<^verbatim>\<open>ObstacleManager.types\<close>, set by the constructor and never written again.\<close>

definition obstacleTypes :: "obstacleType list" where
  "obstacleTypes =
     [\<lparr>ot_kind = Bug, ot_width = 32, ot_height = 32, ot_y = 380, ot_color = ''#f85149''\<rparr>,
      \<lparr>ot_kind = Conflict, ot_width = 32, ot_height = 36, ot_y = 344, ot_color = ''#f85149''\<rparr>,
      \<lparr>ot_kind = Spike, ot_width = 24, ot_height = 48, ot_y = 364, ot_color = ''#ff6b6b''\<rparr>]"

record obstacleManager =
  obstacles :: "obstacle list"

definition ObstacleManager_reset :: "obstacleManager \<Rightarrow> obstacleManager" where
  "ObstacleManager_reset m = m\<lparr>obstacles := []\<rparr>"

text \<open>
  \<^verbatim>\<open>ObstacleManager.spawn()\<close>. The index \<open>randomIndex r 3\<close> is below the length of
  the table for every \<open>r\<close> (lemma \<open>randomIndex_less\<close>), so the read never leaves the table.
\<close>

definition ObstacleManager_spawn :: "rand01 \<Rightarrow> obstacleManager \<Rightarrow> obstacleManager" where
  "ObstacleManager_spawn r m =
     (let ty = obstacleTypes ! randomIndex r (length obstacleTypes)
      in m\<lparr>obstacles := obstacles m @
            [\<lparr>xpos = 900, ypos = ot_y ty, width = ot_width ty, height = ot_height ty,
              kind = ot_kind ty, color = ot_color ty\<rparr>]\<rparr>)"

text \<open>
  \<^verbatim>\<open>ObstacleManager.update(speed, frameCount)\<close>. The callback of \<^verbatim>\<open>filter\<close> first moves
  the obstacle and then tests it: a map followed by a filter.
\<close>

definition ObstacleManager_update ::
  "real \<Rightarrow> nat \<Rightarrow> rand01 \<Rightarrow> obstacleManager \<Rightarrow> obstacleManager" where
  "ObstacleManager_update speed fc r m =
     (let m1 = m\<lparr>obstacles :=
                  filter (\<lambda>obs. xpos obs + width obs > 0)
                    (map (\<lambda>obs. obs\<lparr>xpos := xpos obs - speed\<rparr>) (obstacles m))\<rparr>
      in if fc mod 120 = 0 then ObstacleManager_spawn r m1 else m1)"

definition ObstacleManager_checkCollision :: "player \<Rightarrow> obstacleManager \<Rightarrow> obstacle option" where
  "ObstacleManager_checkCollision p m =
     find (\<lambda>obs. isColliding (Player_getBounds p) obs) (obstacles m)"

text \<open>
  \<^verbatim>\<open>removeObstacle\<close> looks the object up by identity. The engine only passes the object
  \<^verbatim>\<open>checkCollision\<close> returned, the first of the list that overlaps the player; an equal
  object standing earlier in the list would overlap too, so the first equal element is
  that very object and \<open>remove1\<close> removes it. An object that is not in the list leaves
  the list as it is in both.
\<close>

definition ObstacleManager_removeObstacle :: "obstacle \<Rightarrow> obstacleManager \<Rightarrow> obstacleManager" where
  "ObstacleManager_removeObstacle obs m = m\<lparr>obstacles := remove1 obs (obstacles m)\<rparr>"

section \<open>Collectibles\<close>

record collectible = rect +
  floatOffset :: real
  floatPhase :: real

record collectibleManager =
  collectibles :: "collectible list"

definition CollectibleManager_reset :: "collectibleManager \<Rightarrow> collectibleManager" where
  "CollectibleManager_reset m = m\<lparr>collectibles := []\<rparr>"

definition yPositions :: "real list" where
  "yPositions = [300, 340, 380]"

text \<open>
  \<^verbatim>\<open>CollectibleManager.spawn()\<close> draws two random numbers: the first picks the height,
  the second the phase.
\<close>

definition CollectibleManager_spawn ::
  "rand01 \<Rightarrow> rand01 \<Rightarrow> collectibleManager \<Rightarrow> collectibleManager" where
  "CollectibleManager_spawn rY rPhase m =
     (let y0 = yPositions ! randomIndex rY (length yPositions)
      in m\<lparr>collectibles := collectibles m @
            [\<lparr>xpos = 900, ypos = y0, width = 24, height = 24,
              floatOffset = 0, floatPhase = Rep_rand01 rPhase * pi * 2\<rparr>]\<rparr>)"

definition CollectibleManager_update ::
  "real \<Rightarrow> nat \<Rightarrow> rand01 \<Rightarrow> rand01 \<Rightarrow> collectibleManager \<Rightarrow> collectibleManager" where
  "CollectibleManager_update speed fc rY rPhase m =
     (let m1 = m\<lparr>collectibles :=
                  filter (\<lambda>col. xpos col + width col > 0)
                    (map (\<lambda>col. col\<lparr>xpos := xpos col - speed,
                                     floatOffset := sin (real fc * 0.1 + floatPhase col) * 3\<rparr>)
                       (collectibles m))\<rparr>
      in if fc mod 80 = 0 then CollectibleManager_spawn rY rPhase m1 else m1)"

text \<open>
  \<^verbatim>\<open>CollectibleManager.checkCollision\<close> writes the four comparisons out instead of
  calling \<^verbatim>\<open>isColliding\<close>; so does \<^verbatim>\<open>PowerupManager.checkCollision\<close>.
\<close>

definition CollectibleManager_checkCollision ::
  "player \<Rightarrow> collectibleManager \<Rightarrow> collectible option" where
  "CollectibleManager_checkCollision p m =
     (let playerBounds = Player_getBounds p
      in find (\<lambda>col. xpos playerBounds < xpos col + width col \<and>
                      xpos playerBounds + width playerBounds > xpos col \<and>
                      ypos playerBounds < ypos col + height col \<and>
                      ypos playerBounds + height playerBounds > ypos col)
           (collectibles m))"

definition CollectibleManager_removeCollectible ::
  "collectible \<Rightarrow> collectibleManager \<Rightarrow> collectibleManager" where
  "CollectibleManager_removeCollectible col m = m\<lparr>collectibles := remove1 col (collectibles m)\<rparr>"

section \<open>Power-ups\<close>

datatype putype = Invincibility | Slowmo | Magnet

record powerupType =
  pt_type :: putype
  pt_color :: string
  pt_duration :: nat

definition powerupTypes :: "powerupType list" where
  "powerupTypes =
     [\<lparr>pt_type = Invincibility, pt_color = ''#bc8cff'', pt_duration = 5000\<rparr>,
      \<lparr>pt_type = Slowmo, pt_color = ''#58a6ff'', pt_duration = 5000\<rparr>,
      \<lparr>pt_type = Magnet, pt_color = ''#f9826c'', pt_duration = 5000\<rparr>]"

record powerup = rect +
  pu_type :: putype
  pu_color :: string
  pu_duration :: nat
  pu_floatOffset :: real
  pu_floatPhase :: real

record powerupManager =
  powerups :: "powerup list"
  activePowerup :: "putype option"
  powerupTimer :: real

definition PowerupManager_reset :: "powerupManager \<Rightarrow> powerupManager" where
  "PowerupManager_reset m = m\<lparr>powerups := [], activePowerup := None, powerupTimer := 0\<rparr>"

definition PowerupManager_spawn :: "rand01 \<Rightarrow> rand01 \<Rightarrow> powerupManager \<Rightarrow> powerupManager" where
  "PowerupManager_spawn rType rPhase m =
     (let ty = powerupTypes ! randomIndex rType (length powerupTypes)
      in m\<lparr>powerups := powerups m @
            [\<lparr>xpos = 900, ypos = 320, width = 32, height = 32,
              pu_type = pt_type ty, pu_color = pt_color ty, pu_duration = pt_duration ty,
              pu_floatOffset = 0, pu_floatPhase = Rep_rand01 rPhase * pi * 2\<rparr>]\<rparr>)"

text \<open>
  \<^verbatim>\<open>PowerupManager.update(speed, frameCount)\<close>: on every 400th frame a random number
  below one half lets a power-up spawn.
\<close>

definition PowerupManager_update ::
  "real \<Rightarrow> nat \<Rightarrow> rand01 \<Rightarrow> rand01 \<Rightarrow> rand01 \<Rightarrow> powerupManager \<Rightarrow> powerupManager" where
  "PowerupManager_update speed fc rGate rType rPhase m =
     (let m1 = m\<lparr>powerups :=
                  filter (\<lambda>pu. xpos pu + width pu > 0)
                    (map (\<lambda>pu. pu\<lparr>xpos := xpos pu - speed,
                                   pu_floatOffset := sin (real fc * 0.08 + pu_floatPhase pu) * 5\<rparr>)
                       (powerups m))\<rparr>
      in if fc mod 400 = 0 \<and> Rep_rand01 rGate < 0.5
         then PowerupManager_spawn rType rPhase m1 else m1)"

definition PowerupManager_checkCollision :: "player \<Rightarrow> powerupManager \<Rightarrow> powerup option" where
  "PowerupManager_checkCollision p m =
     (let playerBounds = Player_getBounds p
      in find (\<lambda>pu. xpos playerBounds < xpos pu + width pu \<and>
                     xpos playerBounds + width playerBounds > xpos pu \<and>
                     ypos playerBounds < ypos pu + height pu \<and>
                     ypos playerBounds + height playerBounds > ypos pu)
           (powerups m))"

definition PowerupManager_removePowerup :: "powerup \<Rightarrow> powerupManager \<Rightarrow> powerupManager" where
  "PowerupManager_removePowerup pu m = m\<lparr>powerups := remove1 pu (powerups m)\<rparr>"

section \<open>Statistics\<close>

record stats =
  score :: int
  streak :: int
  highScore :: int
  lives :: int
  combo :: int
  maxCombo :: int
  commits :: int
  gameSpeed :: real
  speedMultiplier :: real

text \<open>
  \<^verbatim>\<open>PowerupManager.updateEffects(player, stats)\<close> writes into the two objects it is
  given; the model returns both.
\<close>

definition PowerupManager_updateEffects ::
  "powerupManager \<Rightarrow> player \<Rightarrow> stats \<Rightarrow> player \<times> stats" where
  "PowerupManager_updateEffects m p st =
     (let p1 = (if activePowerup m = Some Invincibility then p\<lparr>invincible := True\<rparr> else p);
          st1 = (if activePowerup m = Some Slowmo
                 then st\<lparr>speedMultiplier := 0.5\<rparr>
                 else st\<lparr>speedMultiplier := 1\<rparr>)
      in (p1, st1))"

section \<open>Particles\<close>

text \<open>
  A particle of \<^verbatim>\<open>game.js\<close> has nine fields; \<^verbatim>\<open>part_000\<close> adds \<^verbatim>\<open>gravity\<close>,
  \<^verbatim>\<open>glow\<close>, \<^verbatim>\<open>shape\<close>, \<^verbatim>\<open>shrink\<close> and, for trail particles only, \<^verbatim>\<open>type\<close>. A
  field the object lacks reads as \<^verbatim>\<open>undefined\<close>, here \<open>None\<close>.
\<close>

record particle =
  p_x :: real
  p_y :: real
  vx :: real
  vy :: real
  p_size :: real
  p_color :: string
  life :: int
  maxLife :: int
  alpha :: real
  p_gravity :: "real option"
  glow :: "bool option"
  shape :: "string option"
  shrink :: "bool option"
  p_type :: "string option"

record particleSystem =
  particles :: "particle list"

definition ParticleSystem_reset :: "particleSystem \<Rightarrow> particleSystem" where
  "ParticleSystem_reset ps = ps\<lparr>particles := []\<rparr>"

text \<open>\<^verbatim>\<open>p.gravity || 0.2\<close>: a missing field and the number 0 both give 0.2.\<close>

definition gravityOrDefault :: "real option \<Rightarrow> real" where
  "gravityOrDefault g = (case g of None \<Rightarrow> 0.2 | Some v \<Rightarrow> if v = 0 then 0.2 else v)"

text \<open>
  The body of the \<^verbatim>\<open>filter\<close> callback of \<^verbatim>\<open>ParticleSystem.update()\<close>: the particle
  after the assignments. The positions move by the old velocity. (\<open>alpha\<close> is only drawn;
  every constructor sets \<open>maxLife\<close> above zero.)
\<close>

definition moveParticle :: "build \<Rightarrow> particle \<Rightarrow> particle" where
  "moveParticle b p =
     (case b of
        Original \<Rightarrow>
          p\<lparr>p_x := p_x p + vx p, p_y := p_y p + vy p, vy := vy p + 0.2,
            life := life p - 1, alpha := real_of_int (life p - 1) / real_of_int (maxLife p)\<rparr>
      | Enhanced \<Rightarrow>
          p\<lparr>p_x := p_x p + vx p, p_y := p_y p + vy p,
            vy := (if p_type p \<noteq> Some ''trail'' then vy p + gravityOrDefault (p_gravity p) else vy p),
            life := life p - 1, alpha := real_of_int (life p - 1) / real_of_int (maxLife p),
            p_size := (if shrink p = Some True then p_size p * 0.96 else p_size p)\<rparr>)"

text \<open>The value the callback returns: whether the particle stays.\<close>

definition keepParticle :: "build \<Rightarrow> particle \<Rightarrow> bool" where
  "keepParticle b p =
     (case b of
        Original \<Rightarrow> life p > 0
      | Enhanced \<Rightarrow> life p > 0 \<and> p_size p > 0.5)"

definition ParticleSystem_update :: "build \<Rightarrow> particleSystem \<Rightarrow> particleSystem" where
  "ParticleSystem_update b ps =
     ps\<lparr>particles := filter (keepParticle b) (map (moveParticle b) (particles ps))\<rparr>"

text \<open>
  The particle that iteration \<open>i\<close> of the loop of \<^verbatim>\<open>createBurst(x, y, color, count)\<close>
  pushes. \<open>rs\<close> lists the results of the calls of \<^verbatim>\<open>Math.random()\<close> in the order the
  loop makes them: one per iteration in \<^verbatim>\<open>game.js\<close>, two in \<^verbatim>\<open>part_000\<close>.
\<close>

definition burstParticle ::
  "build \<Rightarrow> (nat \<Rightarrow> rand01) \<Rightarrow> real \<Rightarrow> real \<Rightarrow> string \<Rightarrow> nat \<Rightarrow> nat \<Rightarrow> particle" where
  "burstParticle b rs x0 y0 col count i =
     (let angle = (pi * 2 * real i) / real count
      in case b of
        Original \<Rightarrow>
          (let speed = 2 + Rep_rand01 (rs i) * 3
           in \<lparr>p_x = x0, p_y = y0, vx = cos angle * speed, vy = sin angle * speed,
               p_size = 4, p_color = col, life = 30, maxLife = 30, alpha = 1,
               p_gravity = None, glow = None, shape = None, shrink = None, p_type = None\<rparr>)
      | Enhanced \<Rightarrow>
          (let speed = 2 + Rep_rand01 (rs (2 * i)) * 3
           in \<lparr>p_x = x0, p_y = y0, vx = cos angle * speed, vy = sin angle * speed,
               p_size = 3 + Rep_rand01 (rs (2 * i + 1)) * 2, p_color = col,
               life = 30, maxLife = 30, alpha = 1,
               p_gravity = Some 0.15, glow = Some True, shape = Some ''circle'',
               shrink = Some True, p_type = None\<rparr>))"

text \<open>A \<^verbatim>\<open>for\<close> loop that pushes one particle per iteration, \<open>i\<close> from 0 below \<open>count\<close>.\<close>

definition pushEach :: "(nat \<Rightarrow> particle) \<Rightarrow> nat \<Rightarrow> particleSystem \<Rightarrow> particleSystem" where
  "pushEach mk count ps =
     foldl (\<lambda>acc i. acc\<lparr>particles := particles acc @ [mk i]\<rparr>) ps [0..<count]"

definition ParticleSystem_createBurst ::
  "build \<Rightarrow> (nat \<Rightarrow> rand01) \<Rightarrow> real \<Rightarrow> real \<Rightarrow> string \<Rightarrow> nat \<Rightarrow> particleSystem \<Rightarrow> particleSystem" where
  "ParticleSystem_createBurst b rs x0 y0 col count ps =
     pushEach (burstParticle b rs x0 y0 col count) count ps"

definition explosionParticle ::
  "build \<Rightarrow> (nat \<Rightarrow> rand01) \<Rightarrow> real \<Rightarrow> real \<Rightarrow> string \<Rightarrow> nat \<Rightarrow> particle" where
  "explosionParticle b rs x0 y0 col i =
     (case b of
        Original \<Rightarrow>
          \<lparr>p_x = x0, p_y = y0,
           vx = (Rep_rand01 (rs (2 * i)) - 0.5) * 6, vy = (Rep_rand01 (rs (2 * i + 1)) - 0.5) * 6,
           p_size = 6, p_color = col, life = 40, maxLife = 40, alpha = 1,
           p_gravity = None, glow = None, shape = None, shrink = None, p_type = None\<rparr>
      | Enhanced \<Rightarrow>
          \<lparr>p_x = x0, p_y = y0,
           vx = (Rep_rand01 (rs (4 * i)) - 0.5) * 8, vy = (Rep_rand01 (rs (4 * i + 1)) - 0.5) * 8,
           p_size = 4 + Rep_rand01 (rs (4 * i + 2)) * 4, p_color = col,
           life = 40, maxLife = 40, alpha = 1,
           p_gravity = Some 0.25, glow = Some True,
           shape = Some (if Rep_rand01 (rs (4 * i + 3)) > 0.5 then ''circle'' else ''square''),
           shrink = Some True, p_type = None\<rparr>)"

text \<open>The shockwave ring of \<^verbatim>\<open>part_000\<close>: twelve particles after the \<open>count\<close> first ones.\<close>

definition ringParticle ::
  "(nat \<Rightarrow> rand01) \<Rightarrow> real \<Rightarrow> real \<Rightarrow> string \<Rightarrow> nat \<Rightarrow> nat \<Rightarrow> particle" where
  "ringParticle rs x0 y0 col count i =
     (let angle = (pi * 2 * real i) / 12;
          speed = 5 + Rep_rand01 (rs (4 * count + i)) * 2
      in \<lparr>p_x = x0, p_y = y0, vx = cos angle * speed, vy = sin angle * speed,
          p_size = 2, p_color = col, life = 20, maxLife = 20, alpha = 1,
          p_gravity = Some 0, glow = Some True, shape = Some ''circle'',
          shrink = Some True, p_type = None\<rparr>)"

definition ParticleSystem_createExplosion ::
  "build \<Rightarrow> (nat \<Rightarrow> rand01) \<Rightarrow> real \<Rightarrow> real \<Rightarrow> string \<Rightarrow> nat \<Rightarrow> particleSystem \<Rightarrow> particleSystem" where
  "ParticleSystem_createExplosion b rs x0 y0 col count ps =
     (let ps1 = pushEach (explosionParticle b rs x0 y0 col) count ps
      in case b of
        Original \<Rightarrow> ps1
      | Enhanced \<Rightarrow> pushEach (ringParticle rs x0 y0 col count) 12 ps1)"

text \<open>\<^verbatim>\<open>createTrail\<close> and \<^verbatim>\<open>createSparkle\<close> exist in \<^verbatim>\<open>part_000\<close> only.\<close>

definition ParticleSystem_createTrail ::
  "(nat \<Rightarrow> rand01) \<Rightarrow> real \<Rightarrow> real \<Rightarrow> string \<Rightarrow> particleSystem \<Rightarrow> particleSystem" where
  "ParticleSystem_createTrail rs x0 y0 col ps =
     ps\<lparr>particles := particles ps @
        [\<lparr>p_x = x0 + Rep_rand01 (rs 0) * 8 - 4, p_y = y0 + Rep_rand01 (rs 1) * 8 - 4,
          vx = (Rep_rand01 (rs 2) - 0.5) * 2, vy = (Rep_rand01 (rs 3) - 0.5) * 2,
          p_size = 2 + Rep_rand01 (rs 4) * 2, p_color = col,
          life = 15, maxLife = 15, alpha = 0.6,
          p_gravity = Some 0.05, glow = Some False, shape = Some ''square'',
          shrink = Some True, p_type = Some ''trail''\<rparr>]\<rparr>"

definition sparkleParticle ::
  "(nat \<Rightarrow> rand01) \<Rightarrow> real \<Rightarrow> real \<Rightarrow> string \<Rightarrow> nat \<Rightarrow> particle" where
  "sparkleParticle rs x0 y0 col i =
     (let angle = (pi * 2 * real i) / 4;
          speed = 1 + Rep_rand01 (rs i)
      in \<lparr>p_x = x0, p_y = y0, vx = cos angle * speed, vy = sin angle * speed,
          p_size = 2, p_color = col, life = 25, maxLife = 25, alpha = 1,
          p_gravity = Some 0, glow = Some True, shape = Some ''circle'',
          shrink = Some True, p_type = None\<rparr>)"

definition ParticleSystem_createSparkle ::
  "(nat \<Rightarrow> rand01) \<Rightarrow> real \<Rightarrow> real \<Rightarrow> string \<Rightarrow> particleSystem \<Rightarrow> particleSystem" where
  "ParticleSystem_createSparkle rs x0 y0 col ps = pushEach (sparkleParticle rs x0 y0 col) 4 ps"

section \<open>Achievements\<close>

text \<open>
  An entry of the catalog: its id, its name and its predicate (\<^verbatim>\<open>desc\<close> and \<^verbatim>\<open>icon\<close>
  are only displayed).
\<close>

record achievement =
  a_id :: string
  a_name :: string
  requirement :: "stats \<Rightarrow> bool"

definition AchievementManager_achievements :: "achievement list" where
  "AchievementManager_achievements =
     [\<lparr>a_id = ''first_commit'', a_name = ''FIRST COMMIT'', requirement = (\<lambda>st. commits st \<ge> 1)\<rparr>,
      \<lparr>a_id = ''streak_10'', a_name = ''GETTING STARTED'', requirement = (\<lambda>st. streak st \<ge> 10)\<rparr>,
      \<lparr>a_id = ''streak_50'', a_name = ''ON FIRE'', requirement = (\<lambda>st. streak st \<ge> 50)\<rparr>,
      \<lparr>a_id = ''score_1000'', a_name = ''MILESTONE'', requirement = (\<lambda>st. score st \<ge> 1000)\<rparr>,
      \<lparr>a_id = ''score_5000'', a_name = ''HIGH ACHIEVER'', requirement = (\<lambda>st. score st \<ge> 5000)\<rparr>,
      \<lparr>a_id = ''combo_5'', a_name = ''COMBO MASTER'', requirement = (\<lambda>st. maxCombo st \<ge> 5)\<rparr>,
      \<lparr>a_id = ''combo_10'', a_name = ''UNSTOPPABLE'', requirement = (\<lambda>st. maxCombo st \<ge> 10)\<rparr>,
      \<lparr>a_id = ''commits_100'', a_name = ''CONTRIBUTOR'', requirement = (\<lambda>st. commits st \<ge> 100)\<rparr>]"

record achievementManager =
  unlocked :: "string list"

text \<open>
  One iteration of the \<^verbatim>\<open>forEach\<close> of \<^verbatim>\<open>checkAchievements(stats)\<close>, on the pair of
  \<^verbatim>\<open>newUnlocked\<close> and the manager.
\<close>

definition checkOne ::
  "stats \<Rightarrow> achievement list \<times> achievementManager \<Rightarrow> achievement \<Rightarrow>
   achievement list \<times> achievementManager" where
  "checkOne st acc a =
     (case acc of (newUnlocked, m) \<Rightarrow>
        if a_id a \<notin> set (unlocked m) \<and> requirement a st
        then (newUnlocked @ [a], m\<lparr>unlocked := unlocked m @ [a_id a]\<rparr>)
        else (newUnlocked, m))"

text \<open>
  \<^verbatim>\<open>AchievementManager.checkAchievements(stats)\<close> over a catalog: the list it returns
  and the manager it leaves.
\<close>

definition checkAchievementsOver ::
  "achievement list \<Rightarrow> stats \<Rightarrow> achievementManager \<Rightarrow> achievement list \<times> achievementManager" where
  "checkAchievementsOver catalog st m = foldl (checkOne st) ([], m) catalog"

definition AchievementManager_checkAchievements ::
  "stats \<Rightarrow> achievementManager \<Rightarrow> achievement list \<times> achievementManager" where
  "AchievementManager_checkAchievements st m =
     checkAchievementsOver AchievementManager_achievements st m"

section \<open>The engine\<close>

datatype gameState = Start | Playing | GameOver

text \<open>The setting \<^verbatim>\<open>settings.particles\<close> is the field \<open>particlesOn\<close>.\<close>

record settings =
  sound :: bool
  music :: bool
  particlesOn :: bool
  screenShake :: bool

record touchControls =
  touchStartX :: real
  touchStartY :: real
  touchEndX :: real
  touchEndY :: real
  minSwipeDistance :: real

subsection \<open>Timers\<close>

text \<open>
  Two calls of \<^verbatim>\<open>setTimeout\<close> write game state when they fire: the one of
  \<^verbatim>\<open>handleDamage\<close> clears \<^verbatim>\<open>player.invincible\<close> after 1500 ms, the one of
  \<^verbatim>\<open>activatePowerup\<close> clears \<^verbatim>\<open>activePowerup\<close> after the duration of the power-up.
  (The other timeouts of the source only touch the DOM and the audio context.) The model
  keeps a clock in milliseconds and the list of pending timeouts, each with the time it is
  due. Nothing in the source cancels a timeout.
\<close>

datatype callback = InvincibleOff | PowerupOff

record game =
  state :: gameState
  frameCount :: nat
  isPaused :: bool
  isMobile :: bool
  touchControls :: touchControls
  settings :: settings
  stats :: stats
  achievements :: achievementManager
  player :: player
  obstacleManager :: obstacleManager
  collectibleManager :: collectibleManager
  powerupManager :: powerupManager
  particleSystem :: particleSystem
  now :: nat
  timers :: "(nat \<times> callback) list"

text \<open>
  The results of \<^verbatim>\<open>Math.random()\<close> during one call of \<^verbatim>\<open>update()\<close>, one field for
  each place of the source that draws. A sequence lists the draws of one particle
  constructor in their order.
\<close>

record rnd =
  rObstacle :: rand01
  rCollectibleY :: rand01
  rCollectiblePhase :: rand01
  rPowerupGate :: rand01
  rPowerupType :: rand01
  rPowerupPhase :: rand01
  rTrail :: "nat \<Rightarrow> rand01"
  rExplosion :: "nat \<Rightarrow> rand01"
  rBurst :: "nat \<Rightarrow> rand01"
  rSparkle :: "nat \<Rightarrow> rand01"
  rPowerupBurst :: "nat \<Rightarrow> rand01"

text \<open>
  The constructor, with what it reads from outside: whether the device is a touch device,
  the saved settings, the saved high score and the saved list of unlocked ids.
\<close>

definition GameEngine_new :: "bool \<Rightarrow> settings \<Rightarrow> int \<Rightarrow> string list \<Rightarrow> game" where
  "GameEngine_new mobile saved high ids =
     \<lparr>state = Start, frameCount = 0, isPaused = False, isMobile = mobile,
      touchControls = \<lparr>touchStartX = 0, touchStartY = 0, touchEndX = 0, touchEndY = 0,
                        minSwipeDistance = 50\<rparr>,
      settings = saved,
      stats = \<lparr>score = 0, streak = 0, highScore = high, lives = 3, combo = 0, maxCombo = 0,
                commits = 0, gameSpeed = 5, speedMultiplier = 1\<rparr>,
      achievements = \<lparr>unlocked = ids\<rparr>,
      player = Player_new 100 380,
      obstacleManager = \<lparr>obstacles = []\<rparr>,
      collectibleManager = \<lparr>collectibles = []\<rparr>,
      powerupManager = \<lparr>powerups = [], activePowerup = None, powerupTimer = 0\<rparr>,
      particleSystem = \<lparr>particles = []\<rparr>,
      now = 0, timers = []\<rparr>"

definition fire :: "callback \<Rightarrow> game \<Rightarrow> game" where
  "fire c g =
     (case c of
        InvincibleOff \<Rightarrow> g\<lparr>player := (player g)\<lparr>invincible := False\<rparr>\<rparr>
      | PowerupOff \<Rightarrow> g\<lparr>powerupManager := (powerupManager g)\<lparr>activePowerup := None\<rparr>\<rparr>)"

text \<open>
  \<open>d\<close> milliseconds pass: the timeouts that are due by then run, the earliest first
  (at equal times the one set first), and leave the list.
\<close>

definition elapse :: "nat \<Rightarrow> game \<Rightarrow> game" where
  "elapse d g =
     (let t = now g + d;
          due = filter (\<lambda>tc. fst tc \<le> t) (timers g);
          rest = filter (\<lambda>tc. \<not> fst tc \<le> t) (timers g)
      in foldl (\<lambda>acc tc. fire (snd tc) acc) (g\<lparr>now := t, timers := rest\<rparr>) (sort_key fst due))"

subsection \<open>Session control\<close>

definition GameEngine_resetGame :: "game \<Rightarrow> game" where
  "GameEngine_resetGame g =
     g\<lparr>stats := (stats g)\<lparr>score := 0, streak := 0, lives := 3, combo := 0, maxCombo := 0,
                           commits := 0, gameSpeed := 5, speedMultiplier := 1\<rparr>,
       frameCount := 0,
       player := Player_reset (player g),
       obstacleManager := ObstacleManager_reset (obstacleManager g),
       collectibleManager := CollectibleManager_reset (collectibleManager g),
       powerupManager := PowerupManager_reset (powerupManager g),
       particleSystem := ParticleSystem_reset (particleSystem g)\<rparr>"

definition GameEngine_startGame :: "game \<Rightarrow> game" where
  "GameEngine_startGame g = (GameEngine_resetGame g)\<lparr>state := Playing\<rparr>"

definition GameEngine_pauseGame :: "game \<Rightarrow> game" where
  "GameEngine_pauseGame g = (if state g = Playing then g\<lparr>isPaused := True\<rparr> else g)"

definition GameEngine_resumeGame :: "game \<Rightarrow> game" where
  "GameEngine_resumeGame g = g\<lparr>isPaused := False\<rparr>"

definition GameEngine_gameOver :: "game \<Rightarrow> game" where
  "GameEngine_gameOver g =
     (let g1 = g\<lparr>state := GameOver\<rparr>;
          g2 = (if score (stats g1) > highScore (stats g1)
                then g1\<lparr>stats := (stats g1)\<lparr>highScore := score (stats g1)\<rparr>\<rparr>
                else g1)
      in g2\<lparr>achievements :=
             snd (AchievementManager_checkAchievements (stats g2) (achievements g2))\<rparr>)"

subsection \<open>Collision handlers\<close>

text \<open>
  \<^verbatim>\<open>PowerupManager.activatePowerup(type)\<close>. The table holds each of the three types, so
  the lookup finds an entry; the source would throw on a type that is not in the table,
  and the last case stands for that.
\<close>

definition PowerupManager_activatePowerup :: "putype \<Rightarrow> game \<Rightarrow> game" where
  "PowerupManager_activatePowerup ty g =
     (let g1 = g\<lparr>powerupManager := (powerupManager g)\<lparr>activePowerup := Some ty\<rparr>\<rparr>
      in case find (\<lambda>pt. pt_type pt = ty) powerupTypes of
           Some pt \<Rightarrow> g1\<lparr>timers := timers g1 @ [(now g1 + pt_duration pt, PowerupOff)]\<rparr>
         | None \<Rightarrow> g1)"

definition GameEngine_handleDamage :: "build \<Rightarrow> rnd \<Rightarrow> game \<Rightarrow> game" where
  "GameEngine_handleDamage b r g =
     (let g1 = g\<lparr>stats := (stats g)\<lparr>lives := lives (stats g) - 1, combo := 0\<rparr>\<rparr>;
          g2 = (if particlesOn (settings g1)
                then g1\<lparr>particleSystem :=
                        ParticleSystem_createExplosion b (rExplosion r)
                          (xpos (player g1) + width (player g1) / 2)
                          (ypos (player g1) + height (player g1) / 2)
                          ''#f85149'' 15 (particleSystem g1)\<rparr>
                else g1)
      in if lives (stats g2) \<le> 0
         then GameEngine_gameOver g2
         else g2\<lparr>player := (player g2)\<lparr>invincible := True\<rparr>,
                 timers := timers g2 @ [(now g2 + 1500, InvincibleOff)]\<rparr>)"

definition GameEngine_handleCollectible :: "build \<Rightarrow> rnd \<Rightarrow> game \<Rightarrow> game" where
  "GameEngine_handleCollectible b r g =
     (let st = stats g;
          st1 = st\<lparr>score := score st + 100, streak := streak st + 1,
                   commits := commits st + 1, combo := combo st + 1\<rparr>;
          st2 = st1\<lparr>maxCombo := max (maxCombo st1) (combo st1)\<rparr>;
          g1 = g\<lparr>stats := st2\<rparr>;
          x0 = xpos (player g1) + width (player g1) / 2;
          y0 = ypos (player g1) + height (player g1) / 2
      in if particlesOn (settings g1)
         then (let ps1 = ParticleSystem_createBurst b (rBurst r) x0 y0 ''#39d353'' 8
                           (particleSystem g1)
               in g1\<lparr>particleSystem :=
                      (case b of
                         Original \<Rightarrow> ps1
                       | Enhanced \<Rightarrow> ParticleSystem_createSparkle (rSparkle r) x0 y0 ''#4ae168'' ps1)\<rparr>)
         else g1)"

definition GameEngine_handlePowerup :: "build \<Rightarrow> rnd \<Rightarrow> powerup \<Rightarrow> game \<Rightarrow> game" where
  "GameEngine_handlePowerup b r pu g =
     (let g1 = PowerupManager_activatePowerup (pu_type pu) g
      in if particlesOn (settings g1)
         then g1\<lparr>particleSystem :=
                 ParticleSystem_createBurst b (rPowerupBurst r)
                   (xpos pu + width pu / 2) (ypos pu + height pu / 2)
                   ''#bc8cff'' 12 (particleSystem g1)\<rparr>
         else g1)"

subsection \<open>The collision pass\<close>

text \<open>
  \<^verbatim>\<open>checkCollisions()\<close> is three blocks, one per manager, run in this order.
\<close>

definition checkObstacle :: "build \<Rightarrow> rnd \<Rightarrow> game \<Rightarrow> game" where
  "checkObstacle b r g =
     (case ObstacleManager_checkCollision (player g) (obstacleManager g) of
        Some obstacleHit \<Rightarrow>
          if \<not> invincible (player g)
          then (let g1 = GameEngine_handleDamage b r g
                in g1\<lparr>obstacleManager :=
                       ObstacleManager_removeObstacle obstacleHit (obstacleManager g1)\<rparr>)
          else g
      | None \<Rightarrow> g)"

definition checkCollectible :: "build \<Rightarrow> rnd \<Rightarrow> game \<Rightarrow> game" where
  "checkCollectible b r g =
     (case CollectibleManager_checkCollision (player g) (collectibleManager g) of
        Some col \<Rightarrow>
          (let g1 = GameEngine_handleCollectible b r g
           in g1\<lparr>collectibleManager :=
                  CollectibleManager_removeCollectible col (collectibleManager g1)\<rparr>)
      | None \<Rightarrow> g)"

definition checkPowerup :: "build \<Rightarrow> rnd \<Rightarrow> game \<Rightarrow> game" where
  "checkPowerup b r g =
     (case PowerupManager_checkCollision (player g) (powerupManager g) of
        Some pu \<Rightarrow>
          (let g1 = GameEngine_handlePowerup b r pu g
           in g1\<lparr>powerupManager := PowerupManager_removePowerup pu (powerupManager g1)\<rparr>)
      | None \<Rightarrow> g)"

definition GameEngine_checkCollisions :: "build \<Rightarrow> rnd \<Rightarrow> game \<Rightarrow> game" where
  "GameEngine_checkCollisions b r g = checkPowerup b r (checkCollectible b r (checkObstacle b r g))"

subsection \<open>One tick\<close>

text \<open>
  The statements of \<^verbatim>\<open>GameEngine.update()\<close> after its guard, each as a function on
  the game, in the order of the source.
\<close>

text \<open>\<^verbatim>\<open>this.frameCount++\<close>\<close>

definition tickFrame :: "game \<Rightarrow> game" where
  "tickFrame g = g\<lparr>frameCount := frameCount g + 1\<rparr>"

text \<open>\<^verbatim>\<open>this.player.update()\<close>\<close>

definition tickPlayer :: "game \<Rightarrow> game" where
  "tickPlayer g = g\<lparr>player := Player_update (player g)\<rparr>"

text \<open>The trail particle, which \<^verbatim>\<open>part_000\<close> emits on every third frame and
  \<^verbatim>\<open>game.js\<close> never.\<close>

definition tickTrail :: "build \<Rightarrow> rnd \<Rightarrow> game \<Rightarrow> game" where
  "tickTrail b r g =
     (if b = Enhanced \<and> particlesOn (settings g) \<and> frameCount g mod 3 = 0
      then g\<lparr>particleSystem :=
              ParticleSystem_createTrail (rTrail r)
                (xpos (player g) + width (player g) / 2)
                (ypos (player g) + height (player g) / 2)
                (if invincible (player g) then ''#bc8cff'' else ''rgba(57, 211, 83, 0.6)'')
                (particleSystem g)\<rparr>
      else g)"

text \<open>\<^verbatim>\<open>this.powerupManager.updateEffects(this.player, this.stats)\<close>\<close>

definition tickEffects :: "game \<Rightarrow> game" where
  "tickEffects g =
     (case PowerupManager_updateEffects (powerupManager g) (player g) (stats g) of
        (p, st) \<Rightarrow> g\<lparr>player := p, stats := st\<rparr>)"

text \<open>The speed increment of every 500th frame.\<close>

definition tickSpeed :: "game \<Rightarrow> game" where
  "tickSpeed g =
     (if frameCount g mod 500 = 0
      then g\<lparr>stats := (stats g)\<lparr>gameSpeed := min (gameSpeed (stats g) + 0.3) 12\<rparr>\<rparr>
      else g)"

text \<open>The three managers and the particle system, on \<^verbatim>\<open>currentSpeed\<close> and the frame
  count. (\<^verbatim>\<open>background.update\<close> stands between the power-up manager and the particle
  system in the source and writes only the background.)\<close>

definition tickObstacles :: "real \<Rightarrow> rnd \<Rightarrow> game \<Rightarrow> game" where
  "tickObstacles speed r g =
     g\<lparr>obstacleManager :=
         ObstacleManager_update speed (frameCount g) (rObstacle r) (obstacleManager g)\<rparr>"

definition tickCollectibles :: "real \<Rightarrow> rnd \<Rightarrow> game \<Rightarrow> game" where
  "tickCollectibles speed r g =
     g\<lparr>collectibleManager :=
         CollectibleManager_update speed (frameCount g)
           (rCollectibleY r) (rCollectiblePhase r) (collectibleManager g)\<rparr>"

definition tickPowerups :: "real \<Rightarrow> rnd \<Rightarrow> game \<Rightarrow> game" where
  "tickPowerups speed r g =
     g\<lparr>powerupManager :=
         PowerupManager_update speed (frameCount g)
           (rPowerupGate r) (rPowerupType r) (rPowerupPhase r) (powerupManager g)\<rparr>"

definition tickParticles :: "build \<Rightarrow> game \<Rightarrow> game" where
  "tickParticles b g = g\<lparr>particleSystem := ParticleSystem_update b (particleSystem g)\<rparr>"

text \<open>\<^verbatim>\<open>this.stats.score += Math.floor(currentSpeed / 10)\<close>\<close>

definition tickScore :: "real \<Rightarrow> game \<Rightarrow> game" where
  "tickScore speed g = g\<lparr>stats := (stats g)\<lparr>score := score (stats g) + \<lfloor>speed / 10\<rfloor>\<rparr>\<rparr>"

text \<open>
  \<^verbatim>\<open>GameEngine.update()\<close>. (Its last statement refreshes the score display on every
  30th frame.)
\<close>

definition GameEngine_update :: "build \<Rightarrow> rnd \<Rightarrow> game \<Rightarrow> game" where
  "GameEngine_update b r g =
     (if state g \<noteq> Playing \<or> isPaused g then g
      else
        let g1 = tickFrame g;
            g2 = tickPlayer g1;
            g3 = tickTrail b r g2;
            g4 = tickEffects g3;
            g5 = tickSpeed g4;
            currentSpeed = gameSpeed (stats g5) * speedMultiplier (stats g5);
            g6 = tickObstacles currentSpeed r g5;
            g7 = tickCollectibles currentSpeed r g6;
            g8 = tickPowerups currentSpeed r g7;
            g9 = tickParticles b g8;
            g10 = GameEngine_checkCollisions b r g9
        in tickScore currentSpeed g10)"

subsection \<open>Input\<close>

definition isPauseKey :: "string \<Rightarrow> bool" where
  "isPauseKey k = (k = ''Escape'' \<or> k = ''p'' \<or> k = ''P'')"

text \<open>The \<^verbatim>\<open>keydown\<close> listener of \<^verbatim>\<open>initializeEventListeners()\<close>, on \<^verbatim>\<open>e.key\<close>.\<close>

definition onKeyDown :: "string \<Rightarrow> game \<Rightarrow> game" where
  "onKeyDown k g =
     (if state g \<noteq> Playing \<or> isPaused g
      then (if isPauseKey k then (if isPaused g then GameEngine_resumeGame g else g) else g)
      else
        let g1 = (if (k = ''ArrowUp'' \<or> k = '' '') \<and> \<not> jumping (player g) \<and> \<not> sliding (player g)
                  then g\<lparr>player := Player_jump (player g)\<rparr> else g);
            g2 = (if k = ''ArrowDown'' \<and> \<not> jumping (player g1) \<and> \<not> sliding (player g1)
                  then g1\<lparr>player := Player_slide (player g1)\<rparr> else g1)
        in if isPauseKey k then GameEngine_pauseGame g2 else g2)"

text \<open>
  The touch listeners of \<^verbatim>\<open>initializeMobileControls()\<close> (\<^verbatim>\<open>part_000\<close>), which
  registers them on a touch device only.
\<close>

definition onJumpBtn :: "game \<Rightarrow> game" where
  "onJumpBtn g =
     (if state g = Playing \<and> \<not> isPaused g \<and> \<not> jumping (player g) \<and> \<not> sliding (player g)
      then g\<lparr>player := Player_jump (player g)\<rparr> else g)"

definition onSlideBtn :: "game \<Rightarrow> game" where
  "onSlideBtn g =
     (if state g = Playing \<and> \<not> isPaused g \<and> \<not> jumping (player g) \<and> \<not> sliding (player g)
      then g\<lparr>player := Player_slide (player g)\<rparr> else g)"

definition GameEngine_handleSwipeGesture :: "game \<Rightarrow> game" where
  "GameEngine_handleSwipeGesture g =
     (let deltaX = touchEndX (touchControls g) - touchStartX (touchControls g);
          deltaY = touchEndY (touchControls g) - touchStartY (touchControls g);
          minDistance = minSwipeDistance (touchControls g)
      in if \<bar>deltaY\<bar> > \<bar>deltaX\<bar>
         then (if \<bar>deltaY\<bar> > minDistance
               then (if deltaY < 0
                     then (if \<not> jumping (player g) \<and> \<not> sliding (player g)
                           then g\<lparr>player := Player_jump (player g)\<rparr> else g)
                     else (if \<not> jumping (player g) \<and> \<not> sliding (player g)
                           then g\<lparr>player := Player_slide (player g)\<rparr> else g))
               else g)
         else g)"

definition onCanvasTouchStart :: "real \<Rightarrow> real \<Rightarrow> game \<Rightarrow> game" where
  "onCanvasTouchStart cx cy g =
     (if state g \<noteq> Playing \<or> isPaused g then g
      else g\<lparr>touchControls := (touchControls g)\<lparr>touchStartX := cx, touchStartY := cy\<rparr>\<rparr>)"

definition onCanvasTouchEnd :: "real \<Rightarrow> real \<Rightarrow> game \<Rightarrow> game" where
  "onCanvasTouchEnd cx cy g =
     (if state g \<noteq> Playing \<or> isPaused g then g
      else GameEngine_handleSwipeGesture
             (g\<lparr>touchControls := (touchControls g)\<lparr>touchEndX := cx, touchEndY := cy\<rparr>\<rparr>))"

subsection \<open>Events\<close>

text \<open>
  What can happen to a running engine: time passes, the browser calls \<^verbatim>\<open>gameLoop()\<close>
  for a frame (\<^verbatim>\<open>update()\<close>, then \<^verbatim>\<open>draw()\<close>, which writes no game state), a key goes
  down, a button is clicked, a setting is toggled, or the screen is touched.
\<close>

datatype button = StartBtn | RestartBtn | ResumeBtn | QuitBtn | ResetProgressBtn

datatype toggle = SoundToggle | MusicToggle | ParticlesToggle | ScreenShakeToggle

datatype event =
    Elapse nat
  | Frame rnd
  | KeyDown string
  | Click button
  | Change toggle bool
  | JumpBtnTouch
  | SlideBtnTouch
  | CanvasTouchStart real real
  | CanvasTouchEnd real real

definition onClick :: "button \<Rightarrow> game \<Rightarrow> game" where
  "onClick bt g =
     (case bt of
        StartBtn \<Rightarrow> GameEngine_startGame g
      | RestartBtn \<Rightarrow> GameEngine_startGame g
      | ResumeBtn \<Rightarrow> GameEngine_resumeGame g
      | QuitBtn \<Rightarrow> (GameEngine_resumeGame g)\<lparr>state := Start\<rparr>
      | ResetProgressBtn \<Rightarrow>
          g\<lparr>stats := (stats g)\<lparr>highScore := 0\<rparr>, achievements := \<lparr>unlocked = []\<rparr>\<rparr>)"

definition onChange :: "toggle \<Rightarrow> bool \<Rightarrow> game \<Rightarrow> game" where
  "onChange tg v g =
     (case tg of
        SoundToggle \<Rightarrow> g\<lparr>settings := (settings g)\<lparr>sound := v\<rparr>\<rparr>
      | MusicToggle \<Rightarrow> g\<lparr>settings := (settings g)\<lparr>music := v\<rparr>\<rparr>
      | ParticlesToggle \<Rightarrow> g\<lparr>settings := (settings g)\<lparr>particlesOn := v\<rparr>\<rparr>
      | ScreenShakeToggle \<Rightarrow> g\<lparr>settings := (settings g)\<lparr>screenShake := v\<rparr>\<rparr>)"

definition step :: "build \<Rightarrow> event \<Rightarrow> game \<Rightarrow> game" where
  "step b e g =
     (case e of
        Elapse d \<Rightarrow> elapse d g
      | Frame r \<Rightarrow> GameEngine_update b r g
      | KeyDown k \<Rightarrow> onKeyDown k g
      | Click bt \<Rightarrow> onClick bt g
      | Change tg v \<Rightarrow> onChange tg v g
      | JumpBtnTouch \<Rightarrow> (if b = Enhanced \<and> isMobile g then onJumpBtn g else g)
      | SlideBtnTouch \<Rightarrow> (if b = Enhanced \<and> isMobile g then onSlideBtn g else g)
      | CanvasTouchStart cx cy \<Rightarrow>
          (if b = Enhanced \<and> isMobile g then onCanvasTouchStart cx cy g else g)
      | CanvasTouchEnd cx cy \<Rightarrow>
          (if b = Enhanced \<and> isMobile g then onCanvasTouchEnd cx cy g else g))"

definition run :: "build \<Rightarrow> event list \<Rightarrow> game \<Rightarrow> game" where
  "run b es g = foldl (\<lambda>acc e. step b e acc) g es"

section \<open>Notions used by the statements\<close>

text \<open>
  What \<^verbatim>\<open>ObstacleManager.update\<close> leaves of a list before it spawns: every obstacle
  moved left by \<open>speed\<close>, those whose right edge is at or left of 0 dropped.
\<close>

definition movedObstacles :: "real \<Rightarrow> obstacle list \<Rightarrow> obstacle list" where
  "movedObstacles speed obs =
     filter (\<lambda>ob. xpos ob + width ob > 0) (map (\<lambda>ob. ob\<lparr>xpos := xpos ob - speed\<rparr>) obs)"

text \<open>The obstacle a row of the type table describes, at the spawn position.\<close>

definition obstacleOfType :: "obstacleType \<Rightarrow> obstacle" where
  "obstacleOfType ty =
     \<lparr>xpos = 900, ypos = ot_y ty, width = ot_width ty, height = ot_height ty,
      kind = ot_kind ty, color = ot_color ty\<rparr>"

text \<open>
  The entries of a catalog that a call of \<^verbatim>\<open>checkAchievements\<close> should report: not yet
  unlocked, predicate true.
\<close>

definition newlyUnlocked :: "achievement list \<Rightarrow> stats \<Rightarrow> achievementManager \<Rightarrow> achievement list" where
  "newlyUnlocked catalog st m =
     filter (\<lambda>a. a_id a \<notin> set (unlocked m) \<and> requirement a st) catalog"

text \<open>What one call of \<^verbatim>\<open>ParticleSystem.update()\<close> leaves of a list of particles.\<close>

definition stepParticles :: "build \<Rightarrow> particle list \<Rightarrow> particle list" where
  "stepParticles b xs = filter (keepParticle b) (map (moveParticle b) xs)"

text \<open>
  \<^verbatim>\<open>currentSpeed\<close> of a tick, read off the game after the speed increment, and the
  game as the collision pass of a tick finds it.
\<close>

definition currentSpeed :: "game \<Rightarrow> real" where
  "currentSpeed g = gameSpeed (stats g) * speedMultiplier (stats g)"

definition beforeManagers :: "build \<Rightarrow> rnd \<Rightarrow> game \<Rightarrow> game" where
  "beforeManagers b r g = tickSpeed (tickEffects (tickTrail b r (tickPlayer (tickFrame g))))"

definition beforeCollisions :: "build \<Rightarrow> rnd \<Rightarrow> game \<Rightarrow> game" where
  "beforeCollisions b r g =
     (let g5 = beforeManagers b r g
      in tickParticles b (tickPowerups (currentSpeed g5) r
           (tickCollectibles (currentSpeed g5) r (tickObstacles (currentSpeed g5) r g5))))"

text \<open>
  The events that carry a jump or a slide command, and the input events at large (keys
  and touches).
\<close>

fun isJumpOrSlide :: "event \<Rightarrow> bool" where
  "isJumpOrSlide (KeyDown k) = (k = ''ArrowUp'' \<or> k = '' '' \<or> k = ''ArrowDown'')"
| "isJumpOrSlide JumpBtnTouch = True"
| "isJumpOrSlide SlideBtnTouch = True"
| "isJumpOrSlide _ = False"

fun isInput :: "event \<Rightarrow> bool" where
  "isInput (KeyDown k) = True"
| "isInput JumpBtnTouch = True"
| "isInput SlideBtnTouch = True"
| "isInput (CanvasTouchStart cx cy) = True"
| "isInput (CanvasTouchEnd cx cy) = True"
| "isInput _ = False"

text \<open>
  The collision pass finds nothing: each of the three \<^verbatim>\<open>checkCollision\<close> calls
  returns \<^verbatim>\<open>undefined\<close>.
\<close>

definition noHit :: "game \<Rightarrow> bool" where
  "noHit g =
     (ObstacleManager_checkCollision (player g) (obstacleManager g) = None \<and>
      CollectibleManager_checkCollision (player g) (collectibleManager g) = None \<and>
      PowerupManager_checkCollision (player g) (powerupManager g) = None)"

text \<open>
  A run of the update loop: before each call of \<^verbatim>\<open>update()\<close> some milliseconds pass
  (so that timeouts may fire), and each call has its random numbers. \<open>quietRun\<close> says
  that the collision pass of every tick of the run finds nothing.
\<close>

fun tickLoop :: "build \<Rightarrow> (nat \<times> rnd) list \<Rightarrow> game \<Rightarrow> game" where
  "tickLoop b [] g = g"
| "tickLoop b ((d, r) # ts) g = tickLoop b ts (GameEngine_update b r (elapse d g))"

fun quietRun :: "build \<Rightarrow> (nat \<times> rnd) list \<Rightarrow> game \<Rightarrow> bool" where
  "quietRun b [] g = True"
| "quietRun b ((d, r) # ts) g =
     (noHit (beforeCollisions b r (elapse d g)) \<and>
      quietRun b ts (GameEngine_update b r (elapse d g)))"

text \<open>
  A running game whose player stands on the ground and in which no obstacle, collectible
  or power-up reaches below the player's top edge.
\<close>

definition calm :: "game \<Rightarrow> bool" where
  "calm g =
     (state g = Playing \<and> \<not> isPaused g \<and>
      ypos (player g) = 380 \<and> velocityY (player g) = 0 \<and>
      (\<forall>ob \<in> set (obstacles (obstacleManager g)). ypos ob + height ob \<le> 380) \<and>
      (\<forall>col \<in> set (collectibles (collectibleManager g)). ypos col + height col \<le> 380) \<and>
      (\<forall>pu \<in> set (powerups (powerupManager g)). ypos pu + height pu \<le> 380))"

text \<open>
  A timeout of \<^verbatim>\<open>handleDamage\<close> is pending; the clicks that start a new game; and the
  state in which invincibility cannot end: the flag is set and no timeout that clears it
  is pending.
\<close>

definition damageTimerPending :: "game \<Rightarrow> bool" where
  "damageTimerPending g = (InvincibleOff \<in> snd ` set (timers g))"

fun isRestart :: "event \<Rightarrow> bool" where
  "isRestart (Click StartBtn) = True"
| "isRestart (Click RestartBtn) = True"
| "isRestart e = False"

definition shieldHolds :: "game \<Rightarrow> bool" where
  "shieldHolds g = (invincible (player g) \<and> \<not> damageTimerPending g)"

section \<open>Concrete inputs\<close>

definition half :: rand01 where
  "half = Abs_rand01 (1 / 2)"

definition bugAt :: "real \<Rightarrow> obstacle" where
  "bugAt x0 = \<lparr>xpos = x0, ypos = 380, width = 32, height = 32, kind = Bug, color = ''#f85149''\<rparr>"

definition constHalf :: "nat \<Rightarrow> rand01" where
  "constHalf i = half"

text \<open>A particle of a burst that \<^verbatim>\<open>game.js\<close> emitted twenty ticks ago.\<close>

definition oldParticle :: particle where
  "oldParticle =
     \<lparr>p_x = 140, p_y = 390, vx = 2, vy = 3, p_size = 4, p_color = ''#39d353'',
      life = 10, maxLife = 30, alpha = 1 / 3,
      p_gravity = None, glow = None, shape = None, shrink = None, p_type = None\<rparr>"

definition zero01 :: rand01 where
  "zero01 = Abs_rand01 0"

text \<open>
  Random numbers that make every spawned obstacle a merge conflict and every spawned
  collectible one of the highest row.
\<close>

definition rQuiet :: rnd where
  "rQuiet =
     \<lparr>rObstacle = half, rCollectibleY = zero01, rCollectiblePhase = half,
      rPowerupGate = half, rPowerupType = zero01, rPowerupPhase = half,
      rTrail = constHalf, rExplosion = constHalf, rBurst = constHalf,
      rSparkle = constHalf, rPowerupBurst = constHalf\<rparr>"

definition settingsOn :: settings where
  "settingsOn = \<lparr>sound = True, music = True, particlesOn = True, screenShake = True\<rparr>"

text \<open>The game right after a click on the start button of a new engine.\<close>

definition freshGame :: game where
  "freshGame = GameEngine_startGame (GameEngine_new False settingsOn 0 [])"

text \<open>A running game with a combo of 7.\<close>

definition comboGame :: game where
  "comboGame = freshGame\<lparr>stats := (stats freshGame)\<lparr>combo := 7, maxCombo := 7\<rparr>\<rparr>"

text \<open>The player one tick after a jump from the ground.\<close>

definition airborne :: game where
  "airborne = freshGame\<lparr>player := (Player_jump (player freshGame))\<lparr>ypos := 367.6, velocityY := - 12.4\<rparr>\<rparr>"

text \<open>A bug overlapping the player, who is invincible in the first game and not in the
  second.\<close>

definition shielded :: game where
  "shielded = freshGame\<lparr>player := (player freshGame)\<lparr>invincible := True\<rparr>,
                        obstacleManager := \<lparr>obstacles = [bugAt 110]\<rparr>\<rparr>"

definition exposed :: game where
  "exposed = freshGame\<lparr>obstacleManager := \<lparr>obstacles = [bugAt 110]\<rparr>\<rparr>"

text \<open>A running game at the speed cap.\<close>

definition capGame :: game where
  "capGame = freshGame\<lparr>stats := (stats freshGame)\<lparr>gameSpeed := 12\<rparr>\<rparr>"

text \<open>
  A game at the speed cap whose player, two ticks into a jump, is about to touch a
  slow-motion power-up; the game after the tick in which the player picks it up; and that
  game forty ticks later, 8 ms apart, when the player has landed.
\<close>

definition slowPickup :: game where
  "slowPickup =
     \<lparr>state = Playing, frameCount = 12340, isPaused = False, isMobile = False,
      touchControls = \<lparr>touchStartX = 0, touchStartY = 0, touchEndX = 0, touchEndY = 0,
                        minSwipeDistance = 50\<rparr>,
      settings = \<lparr>sound = True, music = True, particlesOn = False, screenShake = True\<rparr>,
      stats = \<lparr>score = 14200, streak = 31, highScore = 9000, lives = 2, combo = 4, maxCombo = 9,
                commits = 31, gameSpeed = 12, speedMultiplier = 1\<rparr>,
      achievements = \<lparr>unlocked = [''first_commit'']\<rparr>,
      player = \<lparr>xpos = 100, ypos = 355.8, width = 32, height = 32,
                 initialX = 100, initialY = 380, velocityY = - 11.8,
                 jumping = True, sliding = False, slideTimer = 0, invincible = False\<rparr>,
      obstacleManager = \<lparr>obstacles = []\<rparr>,
      collectibleManager = \<lparr>collectibles = []\<rparr>,
      powerupManager =
        \<lparr>powerups = [\<lparr>xpos = 122, ypos = 320, width = 32, height = 32,
                       pu_type = Slowmo, pu_color = ''#58a6ff'', pu_duration = 5000,
                       pu_floatOffset = 0, pu_floatPhase = 0\<rparr>],
         activePowerup = None, powerupTimer = 0\<rparr>,
      particleSystem = \<lparr>particles = []\<rparr>,
      now = 0, timers = []\<rparr>"

definition afterPickup :: game where
  "afterPickup = GameEngine_update Original rQuiet slowPickup"

definition landed :: game where
  "landed =
     \<lparr>state = Playing, frameCount = 12381, isPaused = False, isMobile = False,
      touchControls = \<lparr>touchStartX = 0, touchStartY = 0, touchEndX = 0, touchEndY = 0,
                        minSwipeDistance = 50\<rparr>,
      settings = \<lparr>sound = True, music = True, particlesOn = False, screenShake = True\<rparr>,
      stats = \<lparr>score = 14201, streak = 31, highScore = 9000, lives = 2, combo = 4, maxCombo = 9,
                commits = 31, gameSpeed = 12, speedMultiplier = 1 / 2\<rparr>,
      achievements = \<lparr>unlocked = [''first_commit'']\<rparr>,
      player = \<lparr>xpos = 100, ypos = 380, width = 32, height = 32,
                 initialX = 100, initialY = 380, velocityY = 0,
                 jumping = False, sliding = False, slideTimer = 0, invincible = False\<rparr>,
      obstacleManager =
        \<lparr>obstacles = [\<lparr>xpos = 774, ypos = 344, width = 32, height = 36,
                        kind = Conflict, color = ''#f85149''\<rparr>]\<rparr>,
      collectibleManager = \<lparr>collectibles = []\<rparr>,
      powerupManager = \<lparr>powerups = [], activePowerup = Some Slowmo, powerupTimer = 0\<rparr>,
      particleSystem = \<lparr>particles = []\<rparr>,
      now = 320, timers = [(5000, PowerupOff)]\<rparr>"

text \<open>
  A running game in which the invincibility power-up is active, and events that follow:
  frames, a jump, six seconds without a frame, a pause and a resume.
\<close>

definition shieldGame :: game where
  "shieldGame =
     freshGame\<lparr>powerupManager := (powerupManager freshGame)\<lparr>activePowerup := Some Invincibility\<rparr>,
               timers := [(5000, PowerupOff)]\<rparr>"

definition afterwards :: "event list" where
  "afterwards =
     [Elapse 16, Frame rQuiet, KeyDown ''ArrowUp'', Elapse 6000, Frame rQuiet,
      KeyDown ''p'', Click ResumeBtn, Frame rQuiet]"

text \<open>
  The player two ticks into a jump; a spike and an invincibility power-up, spawned on the
  same frame, are 16 pixels ahead. In the second game there is only the power-up.
\<close>

definition struck :: game where
  "struck =
     \<lparr>state = Playing, frameCount = 1340, isPaused = False, isMobile = False,
      touchControls = \<lparr>touchStartX = 0, touchStartY = 0, touchEndX = 0, touchEndY = 0,
                        minSwipeDistance = 50\<rparr>,
      settings = \<lparr>sound = True, music = True, particlesOn = False, screenShake = True\<rparr>,
      stats = \<lparr>score = 1500, streak = 3, highScore = 0, lives = 3, combo = 1, maxCombo = 2,
                commits = 3, gameSpeed = 5.6, speedMultiplier = 1\<rparr>,
      achievements = \<lparr>unlocked = [''first_commit'']\<rparr>,
      player = \<lparr>xpos = 100, ypos = 355.8, width = 32, height = 32,
                 initialX = 100, initialY = 380, velocityY = - 11.8,
                 jumping = True, sliding = False, slideTimer = 0, invincible = False\<rparr>,
      obstacleManager =
        \<lparr>obstacles = [\<lparr>xpos = 116, ypos = 364, width = 24, height = 48,
                        kind = Spike, color = ''#ff6b6b''\<rparr>]\<rparr>,
      collectibleManager = \<lparr>collectibles = []\<rparr>,
      powerupManager =
        \<lparr>powerups = [\<lparr>xpos = 116, ypos = 320, width = 32, height = 32,
                       pu_type = Invincibility, pu_color = ''#bc8cff'', pu_duration = 5000,
                       pu_floatOffset = 0, pu_floatPhase = 0\<rparr>],
         activePowerup = None, powerupTimer = 0\<rparr>,
      particleSystem = \<lparr>particles = []\<rparr>,
      now = 0, timers = []\<rparr>"

definition jumpedAt :: game where
  "jumpedAt = struck\<lparr>obstacleManager := \<lparr>obstacles = []\<rparr>\<rparr>"

text \<open>The same player on a touch device.\<close>

definition airborneTouch :: game where
  "airborneTouch = airborne\<lparr>isMobile := True\<rparr>"

text \<open>
  A game of \<^verbatim>\<open>part_000\<close> one tick before frame 12000, a multiple of 3, 80, 120, 400 and 500,
  so that the trail, the speed increment and the three spawns are all due. The player is in
  the air, an obstacle, a collectible and a power-up are on the screen, and one particle is
  alive. The collectible is ahead of the player and higher: the two overlap only after
  \<^verbatim>\<open>Player.update\<close> has moved the player up and the manager has moved the collectible left.
  With \<^verbatim>\<open>rBusy\<close> the power-up manager spawns whenever a spawn is due.
\<close>

definition rBusy :: rnd where
  "rBusy = rQuiet\<lparr>rPowerupGate := zero01\<rparr>"

definition busyGame :: game where
  "busyGame =
     \<lparr>state = Playing, frameCount = 11999, isPaused = False, isMobile = False,
      touchControls = \<lparr>touchStartX = 0, touchStartY = 0, touchEndX = 0, touchEndY = 0,
                        minSwipeDistance = 50\<rparr>,
      settings = settingsOn,
      stats = \<lparr>score = 14200, streak = 31, highScore = 9000, lives = 2, combo = 4, maxCombo = 9,
                commits = 31, gameSpeed = 11.9, speedMultiplier = 1\<rparr>,
      achievements = \<lparr>unlocked = [''first_commit'']\<rparr>,
      player = \<lparr>xpos = 100, ypos = 367.6, width = 32, height = 32,
                 initialX = 100, initialY = 380, velocityY = - 12.4,
                 jumping = True, sliding = False, slideTimer = 0, invincible = False\<rparr>,
      obstacleManager =
        \<lparr>obstacles = [\<lparr>xpos = 500, ypos = 344, width = 32, height = 36,
                        kind = Conflict, color = ''#f85149''\<rparr>]\<rparr>,
      collectibleManager =
        \<lparr>collectibles = [\<lparr>xpos = 140, ypos = 340, width = 24, height = 24,
                           floatOffset = 0, floatPhase = 0\<rparr>]\<rparr>,
      powerupManager =
        \<lparr>powerups = [\<lparr>xpos = 700, ypos = 320, width = 32, height = 32,
                       pu_type = Magnet, pu_color = ''#f9826c'', pu_duration = 5000,
                       pu_floatOffset = 0, pu_floatPhase = 0\<rparr>],
         activePowerup = None, powerupTimer = 0\<rparr>,
      particleSystem = \<lparr>particles = [oldParticle]\<rparr>,
      now = 0, timers = []\<rparr>"

section \<open>Basic facts\<close>

lemma Rep_half: "Rep_rand01 half = 1 / 2"
  by (simp add: half_def Abs_rand01_inverse)

lemma Rep_zero01: "Rep_rand01 zero01 = 0"
  by (simp add: zero01_def Abs_rand01_inverse)

lemma randomIndex_less: "0 < n \<Longrightarrow> randomIndex r n < n"
proof -
  assume n: "0 < n"
  have r: "0 \<le> Rep_rand01 r" "Rep_rand01 r < 1" using Rep_rand01[of r] by auto
  have "Rep_rand01 r * real n < real n" using r n by simp
  then have "\<lfloor>Rep_rand01 r * real n\<rfloor> < int n" by (simp add: floor_less_iff)
  then show ?thesis unfolding randomIndex_def using n by linarith
qed

text \<open>The definitions that evaluating a tick on a concrete game unfolds.\<close>

lemmas tick_defs =
  GameEngine_update_def tickFrame_def tickPlayer_def tickTrail_def tickEffects_def tickSpeed_def
  tickObstacles_def tickCollectibles_def tickPowerups_def tickParticles_def tickScore_def
  Player_update_def gravity_def groundY_def PowerupManager_updateEffects_def
  ObstacleManager_update_def CollectibleManager_update_def PowerupManager_update_def
  ParticleSystem_update_def
  GameEngine_checkCollisions_def checkObstacle_def checkCollectible_def checkPowerup_def
  ObstacleManager_checkCollision_def CollectibleManager_checkCollision_def
  PowerupManager_checkCollision_def Player_getBounds_def isColliding_def
  GameEngine_handleDamage_def GameEngine_handleCollectible_def GameEngine_handlePowerup_def
  PowerupManager_activatePowerup_def powerupTypes_def
  ObstacleManager_removeObstacle_def CollectibleManager_removeCollectible_def
  PowerupManager_removePowerup_def

lemmas run_defs = tickLoop.simps quietRun.simps noHit_def beforeCollisions_def beforeManagers_def
  currentSpeed_def elapse_def fire_def rQuiet_def randomIndex_def Rep_half Rep_zero01
  obstacleTypes_def yPositions_def ObstacleManager_spawn_def CollectibleManager_spawn_def
  PowerupManager_spawn_def

section \<open>The collision predicate\<close>

text \<open>
  Claim C2. \<open>isColliding\<close> is strict overlap of the two boxes on both axes. A box that
  starts exactly where the other ends, horizontally or vertically, does not collide with
  it; the boxes of 10 by 10 at \<open>x = 0\<close> and \<open>x = 10\<close> do not collide, those at \<open>x = 0\<close>
  and \<open>x = 5\<close> do.
\<close>

theorem isColliding_strict_aabb:
  "isColliding A B =
     (xpos A < xpos B + width B \<and> xpos A + width A > xpos B \<and>
      ypos A < ypos B + height B \<and> ypos A + height A > ypos B)
   \<and> \<not> isColliding A (B\<lparr>xpos := xpos A + width A\<rparr>)
   \<and> \<not> isColliding A (B\<lparr>ypos := ypos A + height A\<rparr>)
   \<and> \<not> isColliding \<lparr>xpos = 0, ypos = 0, width = 10, height = 10\<rparr>
                     \<lparr>xpos = 10, ypos = 0, width = 10, height = 10\<rparr>
   \<and> isColliding \<lparr>xpos = 0, ypos = 0, width = 10, height = 10\<rparr>
                 \<lparr>xpos = 5, ypos = 0, width = 10, height = 10\<rparr>"
proof (intro conjI)
  show "isColliding A B =
     (xpos A < xpos B + width B \<and> xpos A + width A > xpos B \<and>
      ypos A < ypos B + height B \<and> ypos A + height A > ypos B)"
    by (simp add: isColliding_def)
  show "\<not> isColliding A (B\<lparr>xpos := xpos A + width A\<rparr>)"
    by (simp add: isColliding_def)
  show "\<not> isColliding A (B\<lparr>ypos := ypos A + height A\<rparr>)"
    by (simp add: isColliding_def)
  show "\<not> isColliding \<lparr>xpos = 0, ypos = 0, width = 10, height = 10\<rparr>
                     \<lparr>xpos = 10, ypos = 0, width = 10, height = 10\<rparr>"
    by (simp add: isColliding_def)
  show "isColliding \<lparr>xpos = 0, ypos = 0, width = 10, height = 10\<rparr>
                 \<lparr>xpos = 5, ypos = 0, width = 10, height = 10\<rparr>"
    by (simp add: isColliding_def)
qed

section \<open>Obstacle spawning\<close>

text \<open>
  Claim C3. One call of \<^verbatim>\<open>ObstacleManager.update(speed, f)\<close> moves and culls the list,
  and then, when \<open>f mod 120 = 0\<close>, appends exactly one obstacle, built at \<open>x = 900\<close>
  from a row of the type table; when \<open>f mod 120 \<noteq> 0\<close> it appends nothing. The random
  number chooses the row only: the length of the result is the same for any two random
  numbers.
\<close>

theorem obstacle_spawn_timing:
  "(f mod 120 = 0 \<longrightarrow>
      (\<exists>ty \<in> set obstacleTypes.
         obstacles (ObstacleManager_update speed f r m) =
           movedObstacles speed (obstacles m) @ [obstacleOfType ty]))
   \<and> (f mod 120 \<noteq> 0 \<longrightarrow>
        obstacles (ObstacleManager_update speed f r m) = movedObstacles speed (obstacles m))
   \<and> length (obstacles (ObstacleManager_update speed f r m)) =
       length (obstacles (ObstacleManager_update speed f r' m))"
proof (intro conjI impI)
  assume f: "f mod 120 = 0"
  have "randomIndex r (length obstacleTypes) < length obstacleTypes"
    by (rule randomIndex_less) (simp add: obstacleTypes_def)
  then have "obstacleTypes ! randomIndex r (length obstacleTypes) \<in> set obstacleTypes"
    by (rule nth_mem)
  moreover have "obstacles (ObstacleManager_update speed f r m) =
      movedObstacles speed (obstacles m) @
        [obstacleOfType (obstacleTypes ! randomIndex r (length obstacleTypes))]"
    using f by (simp add: ObstacleManager_update_def ObstacleManager_spawn_def Let_def
        movedObstacles_def obstacleOfType_def)
  ultimately show "\<exists>ty \<in> set obstacleTypes.
         obstacles (ObstacleManager_update speed f r m) =
           movedObstacles speed (obstacles m) @ [obstacleOfType ty]"
    by blast
next
  assume "f mod 120 \<noteq> 0"
  then show "obstacles (ObstacleManager_update speed f r m) = movedObstacles speed (obstacles m)"
    by (simp add: ObstacleManager_update_def Let_def movedObstacles_def)
next
  show "length (obstacles (ObstacleManager_update speed f r m)) =
       length (obstacles (ObstacleManager_update speed f r' m))"
    by (simp add: ObstacleManager_update_def ObstacleManager_spawn_def Let_def)
qed

text \<open>
  At frame 240 and speed 5 a list of two bugs, the first of them about to leave the
  screen, becomes the second bug and one new obstacle; at frame 241 only the second bug
  is left.
\<close>

theorem obstacle_spawn_timing_witness:
  "(240::nat) mod 120 = 0 \<and> (241::nat) mod 120 \<noteq> 0
   \<and> (\<exists>ty \<in> set obstacleTypes.
        obstacles (ObstacleManager_update 5 240 half \<lparr>obstacles = [bugAt (- 30), bugAt 300]\<rparr>) =
          [bugAt 295, obstacleOfType ty])
   \<and> obstacles (ObstacleManager_update 5 241 half \<lparr>obstacles = [bugAt (- 30), bugAt 300]\<rparr>) =
       [bugAt 295]"
proof -
  have m: "movedObstacles 5 [bugAt (- 30), bugAt 300] = [bugAt 295]"
    by (simp add: movedObstacles_def bugAt_def)
  have f0: "(240::nat) mod 120 = 0" and f1: "(241::nat) mod 120 \<noteq> 0"
    by simp_all
  note inst = obstacle_spawn_timing[of _ 5 half "\<lparr>obstacles = [bugAt (- 30), bugAt 300]\<rparr>" half]
  from inst[of 240] f0 have a: "\<exists>ty \<in> set obstacleTypes.
        obstacles (ObstacleManager_update 5 240 half \<lparr>obstacles = [bugAt (- 30), bugAt 300]\<rparr>) =
          [bugAt 295, obstacleOfType ty]"
    using m by simp
  from inst[of 241] f1
  have b: "obstacles (ObstacleManager_update 5 241 half \<lparr>obstacles = [bugAt (- 30), bugAt 300]\<rparr>) =
       [bugAt 295]"
    using m by simp
  show ?thesis using a b f0 f1 by blast
qed

section \<open>Achievements\<close>

lemma newlyUnlocked_Cons:
  "newlyUnlocked (a # rest) st m =
     (if a_id a \<notin> set (unlocked m) \<and> requirement a st
      then a # newlyUnlocked rest st m else newlyUnlocked rest st m)"
  by (simp add: newlyUnlocked_def)

text \<open>
  The loop over a catalog with pairwise different ids: an id the loop adds belongs to an
  earlier entry, so the test of a later entry reads the list of unlocked ids as it was at
  the start.
\<close>

lemma checkOne_foldl:
  "distinct (map a_id cat) \<Longrightarrow>
   foldl (checkOne st) (new, m) cat =
     (new @ newlyUnlocked cat st m,
      m\<lparr>unlocked := unlocked m @ map a_id (newlyUnlocked cat st m)\<rparr>)"
proof (induction cat arbitrary: new m)
  case Nil
  then show ?case by (simp add: newlyUnlocked_def)
next
  case (Cons a rest)
  from Cons.prems have d: "distinct (map a_id rest)" and fresh: "a_id a \<notin> a_id ` set rest"
    by auto
  show ?case
  proof (cases "a_id a \<notin> set (unlocked m) \<and> requirement a st")
    case True
    let ?m' = "m\<lparr>unlocked := unlocked m @ [a_id a]\<rparr>"
    have same: "newlyUnlocked rest st ?m' = newlyUnlocked rest st m"
      unfolding newlyUnlocked_def using fresh by (intro filter_cong) (auto simp add: image_iff)
    have "foldl (checkOne st) (new, m) (a # rest) = foldl (checkOne st) (new @ [a], ?m') rest"
      using True by (simp add: checkOne_def)
    also have "\<dots> = ((new @ [a]) @ newlyUnlocked rest st ?m',
        ?m'\<lparr>unlocked := unlocked ?m' @ map a_id (newlyUnlocked rest st ?m')\<rparr>)"
      by (rule Cons.IH[OF d])
    finally show ?thesis using True by (simp add: same newlyUnlocked_Cons)
  next
    case False
    have "foldl (checkOne st) (new, m) (a # rest) = foldl (checkOne st) (new, m) rest"
      using False by (auto simp add: checkOne_def)
    also have "\<dots> = (new @ newlyUnlocked rest st m,
        m\<lparr>unlocked := unlocked m @ map a_id (newlyUnlocked rest st m)\<rparr>)"
      by (rule Cons.IH[OF d])
    finally show ?thesis using False by (simp add: newlyUnlocked_Cons)
  qed
qed

lemma catalog_distinct: "distinct (map a_id AchievementManager_achievements)"
  by (simp add: AchievementManager_achievements_def)

lemma checkAchievements_eq:
  "AchievementManager_checkAchievements st m =
     (newlyUnlocked AchievementManager_achievements st m,
      m\<lparr>unlocked := unlocked m @ map a_id (newlyUnlocked AchievementManager_achievements st m)\<rparr>)"
  unfolding AchievementManager_checkAchievements_def checkAchievementsOver_def
  using checkOne_foldl[OF catalog_distinct, of st "[]" m] by simp

lemma newlyUnlocked_again:
  "newlyUnlocked cat st (m\<lparr>unlocked := unlocked m @ map a_id (newlyUnlocked cat st m)\<rparr>) = []"
  unfolding newlyUnlocked_def by (auto simp add: filter_empty_conv)

text \<open>
  Claim C8. For every stats value and every list of unlocked ids, \<^verbatim>\<open>checkAchievements\<close>
  returns the entries of the catalog, in catalog order, whose id is not yet unlocked and
  whose predicate holds, and appends their ids to the unlocked list; a second call with
  the same stats on the manager the first call left returns the empty list.
\<close>

theorem checkAchievements_idempotent:
  "fst (AchievementManager_checkAchievements st m) =
     filter (\<lambda>a. a_id a \<notin> set (unlocked m) \<and> requirement a st) AchievementManager_achievements
   \<and> unlocked (snd (AchievementManager_checkAchievements st m)) =
       unlocked m @ map a_id (fst (AchievementManager_checkAchievements st m))
   \<and> fst (AchievementManager_checkAchievements st
            (snd (AchievementManager_checkAchievements st m))) = []"
proof (intro conjI)
  show "fst (AchievementManager_checkAchievements st m) =
     filter (\<lambda>a. a_id a \<notin> set (unlocked m) \<and> requirement a st) AchievementManager_achievements"
    by (simp add: checkAchievements_eq newlyUnlocked_def)
  show "unlocked (snd (AchievementManager_checkAchievements st m)) =
       unlocked m @ map a_id (fst (AchievementManager_checkAchievements st m))"
    by (simp add: checkAchievements_eq)
  show "fst (AchievementManager_checkAchievements st
            (snd (AchievementManager_checkAchievements st m))) = []"
    by (simp add: checkAchievements_eq[of st m]
        checkAchievements_eq[of st "m\<lparr>unlocked := _\<rparr>"] newlyUnlocked_again)
qed

section \<open>Particles\<close>

lemma pushEach_particles: "particles (pushEach mk n ps) = particles ps @ map mk [0..<n]"
  unfolding pushEach_def by (induction n) simp_all

lemma update_particles: "particles (ParticleSystem_update b ps) = stepParticles b (particles ps)"
  by (simp add: ParticleSystem_update_def stepParticles_def)

lemma updates_particles:
  "particles ((ParticleSystem_update b ^^ n) ps) = (stepParticles b ^^ n) (particles ps)"
  by (induction n) (simp_all add: update_particles)

lemma stepParticles_append: "stepParticles b (xs @ ys) = stepParticles b xs @ stepParticles b ys"
  by (simp add: stepParticles_def)

lemma stepsParticles_append:
  "(stepParticles b ^^ n) (xs @ ys) = (stepParticles b ^^ n) xs @ (stepParticles b ^^ n) ys"
  by (induction n) (simp_all add: stepParticles_append)

lemma life_moveParticle: "life (moveParticle b p) = life p - 1"
  by (cases b) (simp_all add: moveParticle_def)

lemma stepParticles_life:
  "q \<in> set (stepParticles b xs) \<Longrightarrow> 0 < life q \<and> (\<exists>p \<in> set xs. life q = life p - 1)"
  unfolding stepParticles_def
  by (cases b) (auto simp add: keepParticle_def life_moveParticle)

lemma stepsParticles_life:
  "q \<in> set ((stepParticles b ^^ n) xs) \<Longrightarrow> \<exists>p \<in> set xs. life q = life p - int n"
proof (induction n arbitrary: q)
  case 0
  then show ?case by auto
next
  case (Suc n)
  from Suc.prems have "q \<in> set (stepParticles b ((stepParticles b ^^ n) xs))" by simp
  then obtain q' where q': "q' \<in> set ((stepParticles b ^^ n) xs)" "life q = life q' - 1"
    using stepParticles_life by blast
  from Suc.IH[OF q'(1)] q'(2) show ?case by auto
qed

lemma stepsParticles_positive:
  "0 < n \<Longrightarrow> q \<in> set ((stepParticles b ^^ n) xs) \<Longrightarrow> 0 < life q"
  by (cases n) (auto dest: stepParticles_life)

lemma stepsParticles_gone:
  assumes "0 < n" and "\<forall>p \<in> set xs. life p \<le> int n"
  shows "(stepParticles b ^^ n) xs = []"
proof (rule ccontr)
  assume "(stepParticles b ^^ n) xs \<noteq> []"
  then obtain q where q: "q \<in> set ((stepParticles b ^^ n) xs)"
    by (cases "(stepParticles b ^^ n) xs") auto
  from stepsParticles_life[OF q] obtain p where "p \<in> set xs" "life q = life p - int n" by blast
  with assms(2) have "life q \<le> 0" by auto
  with stepsParticles_positive[OF assms(1) q] show False by simp
qed

lemma stepParticles_length: "length (stepParticles b xs) \<le> length xs"
  by (simp add: stepParticles_def)

lemma stepsParticles_length: "length ((stepParticles b ^^ n) xs) \<le> length xs"
proof (induction n)
  case 0
  then show ?case by simp
next
  case (Suc n)
  have "length ((stepParticles b ^^ Suc n) xs) \<le> length ((stepParticles b ^^ n) xs)"
    by (simp add: stepParticles_length)
  with Suc show ?case by linarith
qed

lemma stepsParticles_nil: "(stepParticles b ^^ n) [] = []"
  by (induction n) (simp_all add: stepParticles_def)

lemma life_burstParticle: "life (burstParticle b rs x0 y0 col count i) = 30"
  by (cases b) (simp_all add: burstParticle_def Let_def)

lemma createBurst_particles:
  "particles (ParticleSystem_createBurst b rs x0 y0 col count ps) =
     particles ps @ map (burstParticle b rs x0 y0 col count) [0..<count]"
  by (simp add: ParticleSystem_createBurst_def pushEach_particles)

lemma burst_gone:
  "(stepParticles b ^^ 30) (map (burstParticle b rs x0 y0 col count) [0..<count]) = []"
  by (rule stepsParticles_gone) (auto simp add: life_burstParticle)

lemma burst_then_30:
  "particles ((ParticleSystem_update b ^^ 30) (ParticleSystem_createBurst b rs x0 y0 col count ps)) =
     particles ((ParticleSystem_update b ^^ 30) ps)"
  by (simp add: updates_particles createBurst_particles stepsParticles_append burst_gone)

text \<open>
  Claim C7, as amended. \<^verbatim>\<open>createBurst(x, y, color, 8)\<close> makes the list longer by
  exactly 8. After 30 calls of \<^verbatim>\<open>update()\<close> with no emission none of the burst
  particles is left: the list is what the 30 calls leave of the particles that were there
  before the burst. So its length is at most the length before the burst, and a burst into
  an empty list leaves an empty list.
\<close>

theorem burst_lifetime:
  "length (particles (ParticleSystem_createBurst b rs x0 y0 col 8 ps)) = length (particles ps) + 8
   \<and> particles ((ParticleSystem_update b ^^ 30) (ParticleSystem_createBurst b rs x0 y0 col 8 ps)) =
       particles ((ParticleSystem_update b ^^ 30) ps)
   \<and> length (particles ((ParticleSystem_update b ^^ 30)
               (ParticleSystem_createBurst b rs x0 y0 col 8 ps))) \<le> length (particles ps)
   \<and> particles ((ParticleSystem_update b ^^ 30)
        (ParticleSystem_createBurst b rs x0 y0 col 8 (ps\<lparr>particles := []\<rparr>))) = []"
proof (intro conjI)
  show "length (particles (ParticleSystem_createBurst b rs x0 y0 col 8 ps)) = length (particles ps) + 8"
    by (simp add: createBurst_particles)
  show "particles ((ParticleSystem_update b ^^ 30) (ParticleSystem_createBurst b rs x0 y0 col 8 ps)) =
       particles ((ParticleSystem_update b ^^ 30) ps)"
    by (rule burst_then_30)
  show "length (particles ((ParticleSystem_update b ^^ 30)
               (ParticleSystem_createBurst b rs x0 y0 col 8 ps))) \<le> length (particles ps)"
    unfolding burst_then_30 by (simp add: updates_particles stepsParticles_length)
  show "particles ((ParticleSystem_update b ^^ 30)
        (ParticleSystem_createBurst b rs x0 y0 col 8 (ps\<lparr>particles := []\<rparr>))) = []"
    unfolding burst_then_30 by (simp add: updates_particles stepsParticles_nil)
qed

text \<open>
  The list does not return to its earlier length in general: the earlier particles age
  too. A list holding one particle with 10 ticks of life has length 1 before the burst and
  length 0 thirty updates after it.
\<close>

theorem burst_length_counterexample:
  "length (particles ((ParticleSystem_update Original ^^ 30)
     (ParticleSystem_createBurst Original constHalf 116 396 ''#39d353'' 8
        \<lparr>particles = [oldParticle]\<rparr>))) = 0
   \<and> length (particles \<lparr>particles = [oldParticle]\<rparr>) = 1"
proof -
  have "(stepParticles Original ^^ 30) [oldParticle] = []"
    by (rule stepsParticles_gone) (simp_all add: oldParticle_def)
  then show ?thesis
    unfolding burst_then_30 by (simp add: updates_particles)
qed

section \<open>The shape of one tick\<close>

lemma update_noop: "state g \<noteq> Playing \<or> isPaused g \<Longrightarrow> GameEngine_update b r g = g"
  unfolding GameEngine_update_def by (rule if_P)

lemma update_phases:
  assumes "state g = Playing" "\<not> isPaused g"
  shows "GameEngine_update b r g =
     tickScore (currentSpeed (beforeManagers b r g))
       (GameEngine_checkCollisions b r (beforeCollisions b r g))"
proof -
  have "\<not> (state g \<noteq> Playing \<or> isPaused g)" using assms by simp
  then show ?thesis
    unfolding GameEngine_update_def beforeCollisions_def beforeManagers_def currentSpeed_def Let_def
    by (rule if_not_P[THEN trans]) (rule refl)
qed

section \<open>Combo and maximal combo\<close>

lemma gameOver_stats:
  "stats (GameEngine_gameOver g) =
     (stats g)\<lparr>highScore := (if score (stats g) > highScore (stats g) then score (stats g)
                               else highScore (stats g))\<rparr>"
  by (simp add: GameEngine_gameOver_def Let_def)

lemma handleDamage_stats:
  "stats (GameEngine_handleDamage b r g) =
     (let st = (stats g)\<lparr>lives := lives (stats g) - 1, combo := 0\<rparr>
      in if lives st \<le> 0
         then st\<lparr>highScore := (if score st > highScore st then score st else highScore st)\<rparr>
         else st)"
  by (simp add: GameEngine_handleDamage_def gameOver_stats Let_def)

lemma handleCollectible_stats:
  "stats (GameEngine_handleCollectible b r g) =
     (stats g)\<lparr>score := score (stats g) + 100, streak := streak (stats g) + 1,
               commits := commits (stats g) + 1, combo := combo (stats g) + 1,
               maxCombo := max (maxCombo (stats g)) (combo (stats g) + 1)\<rparr>"
  by (cases b) (simp_all add: GameEngine_handleCollectible_def Let_def)

lemma activatePowerup_stats: "stats (PowerupManager_activatePowerup ty g) = stats g"
  by (simp add: PowerupManager_activatePowerup_def Let_def split: option.split)

lemma handlePowerup_stats: "stats (GameEngine_handlePowerup b r pu g) = stats g"
  by (simp add: GameEngine_handlePowerup_def Let_def activatePowerup_stats)

lemma checkObstacle_maxCombo: "maxCombo (stats (checkObstacle b r g)) = maxCombo (stats g)"
  by (simp add: checkObstacle_def handleDamage_stats Let_def split: option.split)

lemma checkCollectible_maxCombo: "maxCombo (stats g) \<le> maxCombo (stats (checkCollectible b r g))"
  by (simp add: checkCollectible_def handleCollectible_stats Let_def split: option.split)

lemma checkPowerup_stats: "stats (checkPowerup b r g) = stats g"
  by (simp add: checkPowerup_def handlePowerup_stats Let_def split: option.split)

lemma checkCollisions_maxCombo:
  "maxCombo (stats g) \<le> maxCombo (stats (GameEngine_checkCollisions b r g))"
  unfolding GameEngine_checkCollisions_def checkPowerup_stats
  using checkCollectible_maxCombo[of "checkObstacle b r g" b r] checkObstacle_maxCombo[of b r g]
  by simp

lemma tickEffects_fields:
  "player (tickEffects g) =
     (if activePowerup (powerupManager g) = Some Invincibility
      then (player g)\<lparr>invincible := True\<rparr> else player g)"
  "stats (tickEffects g) =
     (stats g)\<lparr>speedMultiplier := (if activePowerup (powerupManager g) = Some Slowmo then 0.5 else 1)\<rparr>"
  by (simp_all add: tickEffects_def PowerupManager_updateEffects_def Let_def)

lemma beforeManagers_maxCombo: "maxCombo (stats (beforeManagers b r g)) = maxCombo (stats g)"
  by (simp add: beforeManagers_def tickSpeed_def tickEffects_fields tickTrail_def
      tickPlayer_def tickFrame_def)

lemma beforeCollisions_stats: "stats (beforeCollisions b r g) = stats (beforeManagers b r g)"
  by (simp add: beforeCollisions_def tickParticles_def tickPowerups_def tickCollectibles_def
      tickObstacles_def Let_def)

lemma update_maxCombo: "maxCombo (stats g) \<le> maxCombo (stats (GameEngine_update b r g))"
proof (cases "state g = Playing \<and> \<not> isPaused g")
  case True
  then have "maxCombo (stats (GameEngine_update b r g)) =
      maxCombo (stats (GameEngine_checkCollisions b r (beforeCollisions b r g)))"
    by (simp add: update_phases tickScore_def)
  then show ?thesis
    using checkCollisions_maxCombo[of "beforeCollisions b r g" b r]
    by (simp add: beforeCollisions_stats beforeManagers_maxCombo)
next
  case False
  then show ?thesis by (simp add: update_noop)
qed

text \<open>
  Claim C1. \<^verbatim>\<open>handleDamage\<close> sets the combo to 0 and leaves the maximal combo as it
  was; \<^verbatim>\<open>handleCollectible\<close> adds one to the combo and sets the maximal combo to the
  larger of its old value and the new combo; and the maximal combo after a call of
  \<^verbatim>\<open>update()\<close> is never below the one before, in whatever state the game is.
\<close>

theorem combo_reset_and_maxCombo:
  "combo (stats (GameEngine_handleDamage b r g)) = 0
   \<and> maxCombo (stats (GameEngine_handleDamage b r g)) = maxCombo (stats g)
   \<and> combo (stats (GameEngine_handleCollectible b r g)) = combo (stats g) + 1
   \<and> maxCombo (stats (GameEngine_handleCollectible b r g)) =
       max (maxCombo (stats g)) (combo (stats (GameEngine_handleCollectible b r g)))
   \<and> maxCombo (stats g) \<le> maxCombo (stats (GameEngine_update b r g))"
proof (intro conjI)
  show "combo (stats (GameEngine_handleDamage b r g)) = 0"
    by (simp add: handleDamage_stats Let_def)
  show "maxCombo (stats (GameEngine_handleDamage b r g)) = maxCombo (stats g)"
    by (simp add: handleDamage_stats Let_def)
  show "combo (stats (GameEngine_handleCollectible b r g)) = combo (stats g) + 1"
    by (simp add: handleCollectible_stats)
  show "maxCombo (stats (GameEngine_handleCollectible b r g)) =
       max (maxCombo (stats g)) (combo (stats (GameEngine_handleCollectible b r g)))"
    by (simp add: handleCollectible_stats)
  show "maxCombo (stats g) \<le> maxCombo (stats (GameEngine_update b r g))"
    by (rule update_maxCombo)
qed

lemma freshGame_eq:
  "freshGame =
     \<lparr>state = Playing, frameCount = 0, isPaused = False, isMobile = False,
      touchControls = \<lparr>touchStartX = 0, touchStartY = 0, touchEndX = 0, touchEndY = 0,
                        minSwipeDistance = 50\<rparr>,
      settings = settingsOn,
      stats = \<lparr>score = 0, streak = 0, highScore = 0, lives = 3, combo = 0, maxCombo = 0,
                commits = 0, gameSpeed = 5, speedMultiplier = 1\<rparr>,
      achievements = \<lparr>unlocked = []\<rparr>,
      player = \<lparr>xpos = 100, ypos = 380, width = 32, height = 32,
                 initialX = 100, initialY = 380, velocityY = 0,
                 jumping = False, sliding = False, slideTimer = 0, invincible = False\<rparr>,
      obstacleManager = \<lparr>obstacles = []\<rparr>,
      collectibleManager = \<lparr>collectibles = []\<rparr>,
      powerupManager = \<lparr>powerups = [], activePowerup = None, powerupTimer = 0\<rparr>,
      particleSystem = \<lparr>particles = []\<rparr>,
      now = 0, timers = []\<rparr>"
  by (simp add: freshGame_def GameEngine_startGame_def GameEngine_resetGame_def GameEngine_new_def
      Player_new_def Player_reset_def ObstacleManager_reset_def CollectibleManager_reset_def
      PowerupManager_reset_def ParticleSystem_reset_def)

text \<open>With a combo and a maximal combo of 7: 0 and 7 after damage, 8 and 8 after a pickup.\<close>

theorem combo_reset_and_maxCombo_witness:
  "combo (stats (GameEngine_handleDamage Original rQuiet comboGame)) = 0
   \<and> maxCombo (stats (GameEngine_handleDamage Original rQuiet comboGame)) = 7
   \<and> combo (stats (GameEngine_handleCollectible Original rQuiet comboGame)) = 8
   \<and> maxCombo (stats (GameEngine_handleCollectible Original rQuiet comboGame)) = 8
   \<and> 7 \<le> maxCombo (stats (GameEngine_update Original rQuiet comboGame))"
proof -
  have c: "combo (stats comboGame) = 7" and m: "maxCombo (stats comboGame) = 7"
    by (simp_all add: comboGame_def)
  show ?thesis
    using combo_reset_and_maxCombo[of Original rQuiet comboGame] by (simp add: c m)
qed

section \<open>Obstacle contact while invincible\<close>

lemma handleDamage_obstacleManager:
  "obstacleManager (GameEngine_handleDamage b r g) = obstacleManager g"
  by (simp add: GameEngine_handleDamage_def GameEngine_gameOver_def Let_def)

lemma handleCollectible_fields:
  "player (GameEngine_handleCollectible b r g) = player g"
  "obstacleManager (GameEngine_handleCollectible b r g) = obstacleManager g"
  by (cases b; simp add: GameEngine_handleCollectible_def Let_def)+

lemma activatePowerup_fields:
  "player (PowerupManager_activatePowerup ty g) = player g"
  "obstacleManager (PowerupManager_activatePowerup ty g) = obstacleManager g"
  by (simp_all add: PowerupManager_activatePowerup_def Let_def split: option.split)

lemma handlePowerup_fields:
  "player (GameEngine_handlePowerup b r pu g) = player g"
  "obstacleManager (GameEngine_handlePowerup b r pu g) = obstacleManager g"
  by (simp_all add: GameEngine_handlePowerup_def Let_def activatePowerup_fields)

lemma checkCollectible_fields:
  "player (checkCollectible b r g) = player g"
  "obstacleManager (checkCollectible b r g) = obstacleManager g"
  "lives (stats (checkCollectible b r g)) = lives (stats g)"
  by (simp_all add: checkCollectible_def Let_def handleCollectible_fields handleCollectible_stats
      split: option.split)

lemma checkPowerup_fields:
  "player (checkPowerup b r g) = player g"
  "obstacleManager (checkPowerup b r g) = obstacleManager g"
  by (simp_all add: checkPowerup_def Let_def handlePowerup_fields split: option.split)

lemma checkObstacle_invincible: "invincible (player g) \<Longrightarrow> checkObstacle b r g = g"
  by (simp add: checkObstacle_def split: option.split)

lemma checkObstacle_vulnerable:
  assumes "\<not> invincible (player g)"
    and "ObstacleManager_checkCollision (player g) (obstacleManager g) = Some obs"
  shows "obstacles (obstacleManager (checkObstacle b r g)) = remove1 obs (obstacles (obstacleManager g))"
    and "lives (stats (checkObstacle b r g)) = lives (stats g) - 1"
  using assms
  by (simp_all add: checkObstacle_def Let_def handleDamage_obstacleManager handleDamage_stats
      ObstacleManager_removeObstacle_def)

text \<open>
  Claim C9. When the first obstacle that overlaps the player is found while
  \<^verbatim>\<open>player.invincible\<close> is true, the obstacle block of the collision pass changes
  nothing, and after the whole pass the lives and the obstacle list are what they were,
  the obstacle is still in the list and \<^verbatim>\<open>checkCollision\<close> finds it again. When the
  player is not invincible the block removes that obstacle and takes a life.
\<close>

theorem invincible_contact_keeps_obstacle:
  "(invincible (player g) \<and>
    ObstacleManager_checkCollision (player g) (obstacleManager g) = Some obs \<longrightarrow>
      checkObstacle b r g = g
      \<and> lives (stats (GameEngine_checkCollisions b r g)) = lives (stats g)
      \<and> obstacles (obstacleManager (GameEngine_checkCollisions b r g)) = obstacles (obstacleManager g)
      \<and> obs \<in> set (obstacles (obstacleManager (GameEngine_checkCollisions b r g)))
      \<and> ObstacleManager_checkCollision (player (GameEngine_checkCollisions b r g))
            (obstacleManager (GameEngine_checkCollisions b r g)) = Some obs)
   \<and> (\<not> invincible (player g) \<and>
      ObstacleManager_checkCollision (player g) (obstacleManager g) = Some obs \<longrightarrow>
        obstacles (obstacleManager (checkObstacle b r g)) = remove1 obs (obstacles (obstacleManager g))
        \<and> lives (stats (checkObstacle b r g)) = lives (stats g) - 1)"
proof (intro conjI impI)
  assume a: "invincible (player g) \<and>
    ObstacleManager_checkCollision (player g) (obstacleManager g) = Some obs"
  then have same: "checkObstacle b r g = g" by (simp add: checkObstacle_invincible)
  show "checkObstacle b r g = g" by (rule same)
  show "lives (stats (GameEngine_checkCollisions b r g)) = lives (stats g)"
    by (simp add: GameEngine_checkCollisions_def same checkPowerup_stats checkCollectible_fields)
  show om: "obstacles (obstacleManager (GameEngine_checkCollisions b r g)) = obstacles (obstacleManager g)"
    by (simp add: GameEngine_checkCollisions_def same checkPowerup_fields checkCollectible_fields)
  from a have "obs \<in> set (obstacles (obstacleManager g))"
    by (auto simp add: ObstacleManager_checkCollision_def find_Some_iff)
  then show "obs \<in> set (obstacles (obstacleManager (GameEngine_checkCollisions b r g)))"
    by (simp add: om)
  show "ObstacleManager_checkCollision (player (GameEngine_checkCollisions b r g))
            (obstacleManager (GameEngine_checkCollisions b r g)) = Some obs"
    using a by (simp add: GameEngine_checkCollisions_def same checkPowerup_fields checkCollectible_fields)
next
  assume a: "\<not> invincible (player g) \<and>
      ObstacleManager_checkCollision (player g) (obstacleManager g) = Some obs"
  then show "obstacles (obstacleManager (checkObstacle b r g)) = remove1 obs (obstacles (obstacleManager g))"
    by (simp add: checkObstacle_vulnerable)
  from a show "lives (stats (checkObstacle b r g)) = lives (stats g) - 1"
    by (simp add: checkObstacle_vulnerable)
qed

lemma hit_shielded:
  "ObstacleManager_checkCollision (player shielded) (obstacleManager shielded) = Some (bugAt 110)"
  by (simp add: shielded_def freshGame_eq ObstacleManager_checkCollision_def Player_getBounds_def
      isColliding_def bugAt_def)

lemma hit_exposed:
  "ObstacleManager_checkCollision (player exposed) (obstacleManager exposed) = Some (bugAt 110)"
  by (simp add: exposed_def freshGame_eq ObstacleManager_checkCollision_def Player_getBounds_def
      isColliding_def bugAt_def)

theorem invincible_contact_keeps_obstacle_witness:
  "invincible (player shielded)
   \<and> ObstacleManager_checkCollision (player shielded) (obstacleManager shielded) = Some (bugAt 110)
   \<and> checkObstacle Original rQuiet shielded = shielded
   \<and> lives (stats (GameEngine_checkCollisions Original rQuiet shielded)) = 3
   \<and> obstacles (obstacleManager (GameEngine_checkCollisions Original rQuiet shielded)) = [bugAt 110]
   \<and> ObstacleManager_checkCollision (player (GameEngine_checkCollisions Original rQuiet shielded))
        (obstacleManager (GameEngine_checkCollisions Original rQuiet shielded)) = Some (bugAt 110)
   \<and> \<not> invincible (player exposed)
   \<and> ObstacleManager_checkCollision (player exposed) (obstacleManager exposed) = Some (bugAt 110)
   \<and> obstacles (obstacleManager (checkObstacle Original rQuiet exposed)) = []
   \<and> lives (stats (checkObstacle Original rQuiet exposed)) = 2"
proof -
  have i1: "invincible (player shielded)" by (simp add: shielded_def)
  have i2: "\<not> invincible (player exposed)" by (simp add: exposed_def freshGame_eq)
  have l1: "lives (stats shielded) = 3" "obstacles (obstacleManager shielded) = [bugAt 110]"
    by (simp_all add: shielded_def freshGame_eq)
  have l2: "lives (stats exposed) = 3" "obstacles (obstacleManager exposed) = [bugAt 110]"
    by (simp_all add: exposed_def freshGame_eq)
  from invincible_contact_keeps_obstacle[of shielded "bugAt 110" Original rQuiet] i1 hit_shielded
  have a: "checkObstacle Original rQuiet shielded = shielded
   \<and> lives (stats (GameEngine_checkCollisions Original rQuiet shielded)) = 3
   \<and> obstacles (obstacleManager (GameEngine_checkCollisions Original rQuiet shielded)) = [bugAt 110]
   \<and> ObstacleManager_checkCollision (player (GameEngine_checkCollisions Original rQuiet shielded))
        (obstacleManager (GameEngine_checkCollisions Original rQuiet shielded)) = Some (bugAt 110)"
    by (simp add: l1)
  from invincible_contact_keeps_obstacle[of exposed "bugAt 110" Original rQuiet] i2 hit_exposed
  have b: "obstacles (obstacleManager (checkObstacle Original rQuiet exposed)) = []
   \<and> lives (stats (checkObstacle Original rQuiet exposed)) = 2"
    by (simp add: l2)
  show ?thesis using a b i1 i2 hit_shielded hit_exposed by blast
qed

section \<open>Commands while jumping or sliding\<close>

lemma onKeyDown_busy:
  assumes "jumping (player g) \<or> sliding (player g)"
  shows "player (onKeyDown k g) = player g"
    and "\<not> isPauseKey k \<Longrightarrow> onKeyDown k g = g"
  using assms
  by (auto simp add: onKeyDown_def Let_def GameEngine_pauseGame_def GameEngine_resumeGame_def)

lemma swipe_busy:
  "jumping (player g) \<or> sliding (player g) \<Longrightarrow> player (onCanvasTouchEnd cx cy g) = player g"
  by (auto simp add: onCanvasTouchEnd_def GameEngine_handleSwipeGesture_def Let_def)

lemma step_input_busy:
  assumes "jumping (player g) \<or> sliding (player g)" and "isInput e"
  shows "player (step b e g) = player g"
proof (cases e)
  case (KeyDown k)
  then show ?thesis using assms by (simp add: step_def onKeyDown_busy)
next
  case JumpBtnTouch
  then show ?thesis using assms by (auto simp add: step_def onJumpBtn_def)
next
  case SlideBtnTouch
  then show ?thesis using assms by (auto simp add: step_def onSlideBtn_def)
next
  case (CanvasTouchStart cx cy)
  then show ?thesis by (simp add: step_def onCanvasTouchStart_def)
next
  case (CanvasTouchEnd cx cy)
  then show ?thesis using assms by (simp add: step_def swipe_busy)
qed (use assms in simp_all)

lemma step_jumpOrSlide_busy:
  assumes "jumping (player g) \<or> sliding (player g)" and "isJumpOrSlide e"
  shows "step b e g = g"
proof (cases e)
  case (KeyDown k)
  with assms(2) have "\<not> isPauseKey k" by (auto simp add: isPauseKey_def)
  then show ?thesis using KeyDown assms(1) by (simp add: step_def onKeyDown_busy)
next
  case JumpBtnTouch
  then show ?thesis using assms by (auto simp add: step_def onJumpBtn_def)
next
  case SlideBtnTouch
  then show ?thesis using assms by (auto simp add: step_def onSlideBtn_def)
qed (use assms in simp_all)

lemma jump_accepted:
  assumes "state g = Playing" "\<not> isPaused g" "\<not> jumping (player g)" "\<not> sliding (player g)"
    and "k = ''ArrowUp'' \<or> k = '' ''"
  shows "player (step b (KeyDown k) g) = (player g)\<lparr>velocityY := - 13, jumping := True\<rparr>"
  using assms
  by (auto simp add: step_def onKeyDown_def Let_def Player_jump_def jumpForce_def isPauseKey_def)

text \<open>
  Claim C4. While the player is jumping or sliding, an event that carries a jump or slide
  command (the arrow keys, the space key, the two touch buttons) leaves the whole game as
  it is, and no input event at all, a swipe included, changes the player: position,
  velocity, flags and box. A jump key pressed in a running, unpaused game whose player is
  neither jumping nor sliding sets \<^verbatim>\<open>velocityY\<close> to -13 and \<^verbatim>\<open>jumping\<close> to true and
  changes nothing else of the player.
\<close>

theorem busy_player_drops_commands:
  "(jumping (player g) \<or> sliding (player g) \<longrightarrow>
      (isJumpOrSlide e \<longrightarrow> step b e g = g) \<and> (isInput e \<longrightarrow> player (step b e g) = player g))
   \<and> (state g = Playing \<and> \<not> isPaused g \<and> \<not> jumping (player g) \<and> \<not> sliding (player g)
       \<and> (k = ''ArrowUp'' \<or> k = '' '') \<longrightarrow>
         player (step b (KeyDown k) g) = (player g)\<lparr>velocityY := - 13, jumping := True\<rparr>)"
  using step_jumpOrSlide_busy[of g e b] step_input_busy[of g e b] jump_accepted[of g k b]
  by blast

theorem busy_player_drops_commands_witness:
  "jumping (player airborne)
   \<and> step Original (KeyDown ''ArrowUp'') airborne = airborne
   \<and> step Original (KeyDown ''ArrowDown'') airborne = airborne
   \<and> player (step Enhanced (CanvasTouchEnd 0 (- 100)) airborne) = player airborne
   \<and> jumping (player airborneTouch) \<and> isMobile airborneTouch
   \<and> step Enhanced JumpBtnTouch airborneTouch = airborneTouch
   \<and> step Enhanced SlideBtnTouch airborneTouch = airborneTouch
   \<and> player (step Enhanced (CanvasTouchEnd 0 (- 100)) airborneTouch) = player airborneTouch
   \<and> touchEndY (touchControls (step Enhanced (CanvasTouchEnd 0 (- 100)) airborneTouch)) = - 100
   \<and> state freshGame = Playing \<and> \<not> isPaused freshGame
   \<and> \<not> jumping (player freshGame) \<and> \<not> sliding (player freshGame)
   \<and> player (step Original (KeyDown ''ArrowUp'') freshGame) =
       (player freshGame)\<lparr>velocityY := - 13, jumping := True\<rparr>"
proof -
  have j: "jumping (player airborne)"
    by (simp add: airborne_def Player_jump_def)
  have jt: "jumping (player airborneTouch)" "isMobile airborneTouch"
    by (simp_all add: airborneTouch_def airborne_def Player_jump_def)
  have f: "state freshGame = Playing" "\<not> isPaused freshGame"
    "\<not> jumping (player freshGame)" "\<not> sliding (player freshGame)"
    by (simp_all add: freshGame_eq)
  from busy_player_drops_commands[of airborne "KeyDown ''ArrowUp''" Original] j
  have a: "step Original (KeyDown ''ArrowUp'') airborne = airborne" by simp
  from busy_player_drops_commands[of airborne "KeyDown ''ArrowDown''" Original] j
  have b: "step Original (KeyDown ''ArrowDown'') airborne = airborne" by simp
  from busy_player_drops_commands[of airborne "CanvasTouchEnd 0 (- 100)" Enhanced] j
  have c: "player (step Enhanced (CanvasTouchEnd 0 (- 100)) airborne) = player airborne" by simp
  from busy_player_drops_commands[of airborneTouch JumpBtnTouch Enhanced] jt
  have t1: "step Enhanced JumpBtnTouch airborneTouch = airborneTouch" by simp
  from busy_player_drops_commands[of airborneTouch SlideBtnTouch Enhanced] jt
  have t2: "step Enhanced SlideBtnTouch airborneTouch = airborneTouch" by simp
  from busy_player_drops_commands[of airborneTouch "CanvasTouchEnd 0 (- 100)" Enhanced] jt
  have t3: "player (step Enhanced (CanvasTouchEnd 0 (- 100)) airborneTouch) = player airborneTouch"
    by simp
  have t4: "touchEndY (touchControls (step Enhanced (CanvasTouchEnd 0 (- 100)) airborneTouch)) = - 100"
    by (simp add: step_def onCanvasTouchEnd_def GameEngine_handleSwipeGesture_def Let_def
        airborneTouch_def airborne_def freshGame_eq Player_jump_def)
  from busy_player_drops_commands[of freshGame _ Original "''ArrowUp''"] f
  have d: "player (step Original (KeyDown ''ArrowUp'') freshGame) =
       (player freshGame)\<lparr>velocityY := - 13, jumping := True\<rparr>" by simp
  show ?thesis using j jt f a b c d t1 t2 t3 t4 by blast
qed

section \<open>The guard and the order of a tick\<close>

lemma gameOver_frameCount: "frameCount (GameEngine_gameOver g) = frameCount g"
  by (simp add: GameEngine_gameOver_def Let_def)

lemma checkCollisions_frameCount: "frameCount (GameEngine_checkCollisions b r g) = frameCount g"
proof -
  have 1: "frameCount (checkObstacle b r g) = frameCount g" for g
    by (simp add: checkObstacle_def GameEngine_handleDamage_def gameOver_frameCount Let_def
        split: option.split)
  have 2: "frameCount (checkCollectible b r g) = frameCount g" for g
    by (cases b) (simp_all add: checkCollectible_def GameEngine_handleCollectible_def Let_def
        split: option.split)
  have 3: "frameCount (checkPowerup b r g) = frameCount g" for g
    by (simp add: checkPowerup_def GameEngine_handlePowerup_def PowerupManager_activatePowerup_def
        Let_def split: option.split)
  show ?thesis by (simp add: GameEngine_checkCollisions_def 1 2 3)
qed

lemma beforeCollisions_frameCount: "frameCount (beforeCollisions b r g) = frameCount g + 1"
  by (simp add: beforeCollisions_def beforeManagers_def tickParticles_def tickPowerups_def
      tickCollectibles_def tickObstacles_def tickSpeed_def tickEffects_def tickTrail_def
      tickPlayer_def tickFrame_def Let_def case_prod_unfold)

lemma beforeCollisions_methods:
  "beforeCollisions b r g =
     (let fc = frameCount g + 1;
          p1 = Player_update (player g);
          ps1 = (if b = Enhanced \<and> particlesOn (settings g) \<and> fc mod 3 = 0
                 then ParticleSystem_createTrail (rTrail r)
                        (xpos p1 + width p1 / 2) (ypos p1 + height p1 / 2)
                        (if invincible p1 then ''#bc8cff'' else ''rgba(57, 211, 83, 0.6)'')
                        (particleSystem g)
                 else particleSystem g);
          eff = PowerupManager_updateEffects (powerupManager g) p1 (stats g);
          st1 = (if fc mod 500 = 0
                 then (snd eff)\<lparr>gameSpeed := min (gameSpeed (snd eff) + 0.3) 12\<rparr>
                 else snd eff);
          v = gameSpeed st1 * speedMultiplier st1
      in g\<lparr>frameCount := fc, player := fst eff, stats := st1,
            obstacleManager := ObstacleManager_update v fc (rObstacle r) (obstacleManager g),
            collectibleManager :=
              CollectibleManager_update v fc (rCollectibleY r) (rCollectiblePhase r)
                (collectibleManager g),
            powerupManager :=
              PowerupManager_update v fc (rPowerupGate r) (rPowerupType r) (rPowerupPhase r)
                (powerupManager g),
            particleSystem := ParticleSystem_update b ps1\<rparr>)"
  by (simp add: beforeCollisions_def beforeManagers_def currentSpeed_def tickParticles_def
      tickPowerups_def tickCollectibles_def tickObstacles_def tickSpeed_def tickEffects_def
      tickTrail_def tickPlayer_def tickFrame_def Let_def case_prod_unfold)

lemma currentSpeed_methods:
  "currentSpeed (beforeManagers b r g) =
     (let fc = frameCount g + 1;
          eff = PowerupManager_updateEffects (powerupManager g) (Player_update (player g)) (stats g);
          st1 = (if fc mod 500 = 0
                 then (snd eff)\<lparr>gameSpeed := min (gameSpeed (snd eff) + 0.3) 12\<rparr>
                 else snd eff)
      in gameSpeed st1 * speedMultiplier st1)"
  by (simp add: beforeManagers_def currentSpeed_def tickSpeed_def tickEffects_def
      tickTrail_def tickPlayer_def tickFrame_def Let_def case_prod_unfold)

text \<open>
  Claim C6. When the state is not \<^verbatim>\<open>playing\<close> or the game is paused, \<^verbatim>\<open>update()\<close>
  returns the game unchanged, every field of it. Otherwise its result is what the methods of
  the classes compute when they are called in this order: the frame counter advances; then
  \<^verbatim>\<open>Player.update\<close> runs on the player; the trail (in \<^verbatim>\<open>part_000\<close>) is emitted at the
  position of the updated player; \<^verbatim>\<open>updateEffects\<close> sees the updated player; the speed
  increment uses the new frame count; the obstacle, collectible and power-up managers are
  updated with the speed so obtained and the new frame count; \<^verbatim>\<open>ParticleSystem.update\<close>
  ages the particles, the trail included; the collision pass runs on the state built from
  all of these; and the score grows by the floor of a tenth of the speed, on top of what the
  collision pass made of it. The frame counter has then advanced by one.
\<close>

theorem update_guard_and_order:
  "(state g \<noteq> Playing \<or> isPaused g \<longrightarrow> GameEngine_update b r g = g)
   \<and> (state g = Playing \<and> \<not> isPaused g \<longrightarrow>
        GameEngine_update b r g =
          (let fc = frameCount g + 1;
               p1 = Player_update (player g);
               ps1 = (if b = Enhanced \<and> particlesOn (settings g) \<and> fc mod 3 = 0
                      then ParticleSystem_createTrail (rTrail r)
                             (xpos p1 + width p1 / 2) (ypos p1 + height p1 / 2)
                             (if invincible p1 then ''#bc8cff'' else ''rgba(57, 211, 83, 0.6)'')
                             (particleSystem g)
                      else particleSystem g);
               eff = PowerupManager_updateEffects (powerupManager g) p1 (stats g);
               st1 = (if fc mod 500 = 0
                      then (snd eff)\<lparr>gameSpeed := min (gameSpeed (snd eff) + 0.3) 12\<rparr>
                      else snd eff);
               v = gameSpeed st1 * speedMultiplier st1;
               g9 = g\<lparr>frameCount := fc, player := fst eff, stats := st1,
                      obstacleManager :=
                        ObstacleManager_update v fc (rObstacle r) (obstacleManager g),
                      collectibleManager :=
                        CollectibleManager_update v fc (rCollectibleY r) (rCollectiblePhase r)
                          (collectibleManager g),
                      powerupManager :=
                        PowerupManager_update v fc (rPowerupGate r) (rPowerupType r)
                          (rPowerupPhase r) (powerupManager g),
                      particleSystem := ParticleSystem_update b ps1\<rparr>;
               g10 = GameEngine_checkCollisions b r g9
           in g10\<lparr>stats := (stats g10)\<lparr>score := score (stats g10) + \<lfloor>v / 10\<rfloor>\<rparr>\<rparr>)
        \<and> frameCount (GameEngine_update b r g) = frameCount g + 1)"
proof (intro conjI impI)
  assume "state g \<noteq> Playing \<or> isPaused g"
  then show "GameEngine_update b r g = g" by (rule update_noop)
next
  assume a: "state g = Playing \<and> \<not> isPaused g"
  then have "GameEngine_update b r g =
      tickScore (currentSpeed (beforeManagers b r g))
        (GameEngine_checkCollisions b r (beforeCollisions b r g))"
    by (simp add: update_phases)
  then show "GameEngine_update b r g =
          (let fc = frameCount g + 1;
               p1 = Player_update (player g);
               ps1 = (if b = Enhanced \<and> particlesOn (settings g) \<and> fc mod 3 = 0
                      then ParticleSystem_createTrail (rTrail r)
                             (xpos p1 + width p1 / 2) (ypos p1 + height p1 / 2)
                             (if invincible p1 then ''#bc8cff'' else ''rgba(57, 211, 83, 0.6)'')
                             (particleSystem g)
                      else particleSystem g);
               eff = PowerupManager_updateEffects (powerupManager g) p1 (stats g);
               st1 = (if fc mod 500 = 0
                      then (snd eff)\<lparr>gameSpeed := min (gameSpeed (snd eff) + 0.3) 12\<rparr>
                      else snd eff);
               v = gameSpeed st1 * speedMultiplier st1;
               g9 = g\<lparr>frameCount := fc, player := fst eff, stats := st1,
                      obstacleManager :=
                        ObstacleManager_update v fc (rObstacle r) (obstacleManager g),
                      collectibleManager :=
                        CollectibleManager_update v fc (rCollectibleY r) (rCollectiblePhase r)
                          (collectibleManager g),
                      powerupManager :=
                        PowerupManager_update v fc (rPowerupGate r) (rPowerupType r)
                          (rPowerupPhase r) (powerupManager g),
                      particleSystem := ParticleSystem_update b ps1\<rparr>;
               g10 = GameEngine_checkCollisions b r g9
           in g10\<lparr>stats := (stats g10)\<lparr>score := score (stats g10) + \<lfloor>v / 10\<rfloor>\<rparr>\<rparr>)"
    unfolding beforeCollisions_methods currentSpeed_methods tickScore_def Let_def
    by (rule trans) (rule refl)
  from a show "frameCount (GameEngine_update b r g) = frameCount g + 1"
    by (simp add: update_phases tickScore_def checkCollisions_frameCount beforeCollisions_frameCount)
qed

lemma life_sparkleParticle: "life (sparkleParticle rs x0 y0 col i) = 25"
  by (simp add: sparkleParticle_def Let_def)

lemma createSparkle_particles:
  "particles (ParticleSystem_createSparkle rs x0 y0 col ps) =
     particles ps @ map (sparkleParticle rs x0 y0 col) [0..<4]"
  by (simp add: ParticleSystem_createSparkle_def pushEach_particles)

lemma map_life_burst:
  "map (life \<circ> burstParticle b rs x0 y0 col count) xs = replicate (length xs) 30"
  by (induction xs) (simp_all add: life_burstParticle)

lemma map_life_sparkle:
  "map (life \<circ> sparkleParticle rs x0 y0 col) xs = replicate (length xs) 25"
  by (induction xs) (simp_all add: life_sparkleParticle)

text \<open>
  The tick of \<^verbatim>\<open>busyGame\<close>, where each step acts and the order shows. The obstacle moves by
  12, the speed after the increment, not by 11.9. The collectible is picked up, although
  the collision pass finds nothing in the state before the tick. The old particle and the
  trail particle, emitted with 15 ticks of life, have aged by one, while the burst and the
  sparkle that the collision pass emits still have their full life of 30 and 25.
\<close>

theorem update_guard_and_order_witness:
  "isPaused (GameEngine_pauseGame busyGame)
   \<and> GameEngine_update Enhanced rBusy (GameEngine_pauseGame busyGame) = GameEngine_pauseGame busyGame
   \<and> state busyGame = Playing \<and> \<not> isPaused busyGame
   \<and> frameCount busyGame = 11999
   \<and> frameCount (GameEngine_update Enhanced rBusy busyGame) = 12000
   \<and> ypos (player busyGame) = 367.6
   \<and> ypos (player (GameEngine_update Enhanced rBusy busyGame)) = 355.8
   \<and> gameSpeed (stats busyGame) = 11.9
   \<and> gameSpeed (stats (GameEngine_update Enhanced rBusy busyGame)) = 12
   \<and> map xpos (obstacles (obstacleManager busyGame)) = [500]
   \<and> map xpos (obstacles (obstacleManager (GameEngine_update Enhanced rBusy busyGame))) = [488, 900]
   \<and> map xpos (collectibles (collectibleManager busyGame)) = [140]
   \<and> map xpos (collectibles (collectibleManager (GameEngine_update Enhanced rBusy busyGame))) = [900]
   \<and> map xpos (powerups (powerupManager busyGame)) = [700]
   \<and> map xpos (powerups (powerupManager (GameEngine_update Enhanced rBusy busyGame))) = [688, 900]
   \<and> map life (particles (particleSystem busyGame)) = [10]
   \<and> map life (particles (particleSystem (GameEngine_update Enhanced rBusy busyGame))) =
       [9, 14] @ replicate 8 30 @ replicate 4 25
   \<and> score (stats busyGame) = 14200 \<and> combo (stats busyGame) = 4
   \<and> GameEngine_checkCollisions Enhanced rBusy busyGame = busyGame
   \<and> score (stats (GameEngine_update Enhanced rBusy busyGame)) = 14301
   \<and> combo (stats (GameEngine_update Enhanced rBusy busyGame)) = 5"
proof -
  note methods = Player_update_def gravity_def groundY_def PowerupManager_updateEffects_def
    ObstacleManager_update_def CollectibleManager_update_def PowerupManager_update_def
    ObstacleManager_spawn_def CollectibleManager_spawn_def PowerupManager_spawn_def
    randomIndex_def Rep_half Rep_zero01 obstacleTypes_def yPositions_def powerupTypes_def
    ParticleSystem_update_def moveParticle_def keepParticle_def gravityOrDefault_def
    ParticleSystem_createTrail_def constHalf_def
    GameEngine_checkCollisions_def checkObstacle_def checkCollectible_def checkPowerup_def
    ObstacleManager_checkCollision_def CollectibleManager_checkCollision_def
    PowerupManager_checkCollision_def Player_getBounds_def isColliding_def
    GameEngine_handleCollectible_def CollectibleManager_removeCollectible_def
    createBurst_particles createSparkle_particles life_burstParticle life_sparkleParticle
    map_life_burst map_life_sparkle
  have p: "isPaused (GameEngine_pauseGame busyGame)"
    by (simp add: GameEngine_pauseGame_def busyGame_def)
  have f: "state busyGame = Playing" "\<not> isPaused busyGame" "frameCount busyGame = 11999"
    "ypos (player busyGame) = 367.6" "gameSpeed (stats busyGame) = 11.9"
    "map xpos (obstacles (obstacleManager busyGame)) = [500]"
    "map xpos (collectibles (collectibleManager busyGame)) = [140]"
    "map xpos (powerups (powerupManager busyGame)) = [700]"
    "map life (particles (particleSystem busyGame)) = [10]"
    "score (stats busyGame) = 14200" "combo (stats busyGame) = 4"
    by (simp_all add: busyGame_def oldParticle_def)
  from update_guard_and_order[of "GameEngine_pauseGame busyGame" Enhanced rBusy] p
  have a: "GameEngine_update Enhanced rBusy (GameEngine_pauseGame busyGame) =
      GameEngine_pauseGame busyGame" by simp
  note inst = update_guard_and_order[of busyGame Enhanced rBusy]
  from inst f(1,2)
  have fc: "frameCount (GameEngine_update Enhanced rBusy busyGame) = frameCount busyGame + 1"
    by blast
  from inst f(1,2) have eq: "GameEngine_update Enhanced rBusy busyGame =
          (let fc = frameCount busyGame + 1;
               p1 = Player_update (player busyGame);
               ps1 = (if Enhanced = Enhanced \<and> particlesOn (settings busyGame) \<and> fc mod 3 = 0
                      then ParticleSystem_createTrail (rTrail rBusy)
                             (xpos p1 + width p1 / 2) (ypos p1 + height p1 / 2)
                             (if invincible p1 then ''#bc8cff'' else ''rgba(57, 211, 83, 0.6)'')
                             (particleSystem busyGame)
                      else particleSystem busyGame);
               eff = PowerupManager_updateEffects (powerupManager busyGame) p1 (stats busyGame);
               st1 = (if fc mod 500 = 0
                      then (snd eff)\<lparr>gameSpeed := min (gameSpeed (snd eff) + 0.3) 12\<rparr>
                      else snd eff);
               v = gameSpeed st1 * speedMultiplier st1;
               g9 = busyGame\<lparr>frameCount := fc, player := fst eff, stats := st1,
                      obstacleManager :=
                        ObstacleManager_update v fc (rObstacle rBusy) (obstacleManager busyGame),
                      collectibleManager :=
                        CollectibleManager_update v fc (rCollectibleY rBusy) (rCollectiblePhase rBusy)
                          (collectibleManager busyGame),
                      powerupManager :=
                        PowerupManager_update v fc (rPowerupGate rBusy) (rPowerupType rBusy)
                          (rPowerupPhase rBusy) (powerupManager busyGame),
                      particleSystem := ParticleSystem_update Enhanced ps1\<rparr>;
               g10 = GameEngine_checkCollisions Enhanced rBusy g9
           in g10\<lparr>stats := (stats g10)\<lparr>score := score (stats g10) + \<lfloor>v / 10\<rfloor>\<rparr>\<rparr>)"
    by blast
  have u: "ypos (player (GameEngine_update Enhanced rBusy busyGame)) = 355.8"
    "gameSpeed (stats (GameEngine_update Enhanced rBusy busyGame)) = 12"
    "map xpos (obstacles (obstacleManager (GameEngine_update Enhanced rBusy busyGame))) = [488, 900]"
    "map xpos (collectibles (collectibleManager (GameEngine_update Enhanced rBusy busyGame))) = [900]"
    "map xpos (powerups (powerupManager (GameEngine_update Enhanced rBusy busyGame))) = [688, 900]"
    "map life (particles (particleSystem (GameEngine_update Enhanced rBusy busyGame))) =
       [9, 14] @ replicate 8 30 @ replicate 4 25"
    "score (stats (GameEngine_update Enhanced rBusy busyGame)) = 14301"
    "combo (stats (GameEngine_update Enhanced rBusy busyGame)) = 5"
    unfolding eq
    by (simp_all add: busyGame_def rBusy_def rQuiet_def settingsOn_def oldParticle_def methods
        Let_def cong: let_weak_cong)
  have n: "GameEngine_checkCollisions Enhanced rBusy busyGame = busyGame"
    by (simp add: busyGame_def rBusy_def rQuiet_def settingsOn_def oldParticle_def
        GameEngine_checkCollisions_def checkObstacle_def checkCollectible_def checkPowerup_def
        ObstacleManager_checkCollision_def CollectibleManager_checkCollision_def
        PowerupManager_checkCollision_def Player_getBounds_def isColliding_def
        Let_def cong: let_weak_cong)
  from fc f(3) have fc': "frameCount (GameEngine_update Enhanced rBusy busyGame) = 12000"
    by simp
  show ?thesis using p a f fc' u n by simp
qed

section \<open>Timers\<close>

lemma fire_fields:
  "state (fire c h) = state h"
  "isPaused (fire c h) = isPaused h"
  "stats (fire c h) = stats h"
  "frameCount (fire c h) = frameCount h"
  "timers (fire c h) = timers h"
  "now (fire c h) = now h"
  "obstacleManager (fire c h) = obstacleManager h"
  "collectibleManager (fire c h) = collectibleManager h"
  "powerups (powerupManager (fire c h)) = powerups (powerupManager h)"
  by (cases c; simp add: fire_def)+

lemma foldl_fire_preserves:
  assumes "P h" and "\<And>c h. c \<in> snd ` set tcs \<Longrightarrow> P h \<Longrightarrow> P (fire c h)"
  shows "P (foldl (\<lambda>acc tc. fire (snd tc) acc) h tcs)"
  using assms
proof (induction tcs arbitrary: h)
  case Nil
  then show ?case by simp
next
  case (Cons tc tcs)
  have "P (fire (snd tc) h)" using Cons.prems by simp
  then show ?case using Cons.IH Cons.prems(2) by simp
qed

lemma elapse_preserves:
  assumes "P (g\<lparr>now := now g + d, timers := filter (\<lambda>tc. \<not> fst tc \<le> now g + d) (timers g)\<rparr>)"
    and "\<And>c h. c \<in> snd ` set (timers g) \<Longrightarrow> P h \<Longrightarrow> P (fire c h)"
  shows "P (elapse d g)"
  unfolding elapse_def Let_def
  by (rule foldl_fire_preserves) (use assms in auto)

lemma elapse_fields:
  "state (elapse d g) = state g"
  "isPaused (elapse d g) = isPaused g"
  "stats (elapse d g) = stats g"
  "frameCount (elapse d g) = frameCount g"
  "obstacleManager (elapse d g) = obstacleManager g"
  "collectibleManager (elapse d g) = collectibleManager g"
  "powerups (powerupManager (elapse d g)) = powerups (powerupManager g)"
  by (rule elapse_preserves; simp add: fire_fields)+

lemma elapse_not_slowmo:
  "activePowerup (powerupManager g) \<noteq> Some Slowmo \<Longrightarrow>
   activePowerup (powerupManager (elapse d g)) \<noteq> Some Slowmo"
proof (rule elapse_preserves)
  fix c and h :: game
  assume "activePowerup (powerupManager h) \<noteq> Some Slowmo"
  then show "activePowerup (powerupManager (fire c h)) \<noteq> Some Slowmo"
    by (cases c) (simp_all add: fire_def)
qed simp

section \<open>Quiet ticks\<close>

lemma noHit_checkCollisions: "noHit g \<Longrightarrow> GameEngine_checkCollisions b r g = g"
  by (simp add: noHit_def GameEngine_checkCollisions_def checkObstacle_def checkCollectible_def
      checkPowerup_def)

lemma beforeManagers_fields:
  "state (beforeManagers b r g) = state g"
  "isPaused (beforeManagers b r g) = isPaused g"
  "powerupManager (beforeManagers b r g) = powerupManager g"
  "timers (beforeManagers b r g) = timers g"
  by (simp_all add: beforeManagers_def tickSpeed_def tickEffects_def tickTrail_def tickPlayer_def
      tickFrame_def case_prod_unfold)

lemma beforeCollisions_fields:
  "state (beforeCollisions b r g) = state g"
  "isPaused (beforeCollisions b r g) = isPaused g"
  "activePowerup (powerupManager (beforeCollisions b r g)) = activePowerup (powerupManager g)"
  "timers (beforeCollisions b r g) = timers g"
  by (simp_all add: beforeCollisions_def Let_def tickParticles_def tickPowerups_def
      tickCollectibles_def tickObstacles_def beforeManagers_fields
      PowerupManager_update_def PowerupManager_spawn_def)

lemma beforeManagers_stats:
  "stats (beforeManagers b r g) =
     (stats g)\<lparr>speedMultiplier := (if activePowerup (powerupManager g) = Some Slowmo then 0.5 else 1),
               gameSpeed := (if (frameCount g + 1) mod 500 = 0
                             then min (gameSpeed (stats g) + 0.3) 12 else gameSpeed (stats g))\<rparr>"
  by (simp add: beforeManagers_def tickSpeed_def tickTrail_def tickPlayer_def
      tickFrame_def tickEffects_def PowerupManager_updateEffects_def Let_def)

lemma quiet_tick:
  assumes "state g = Playing" "\<not> isPaused g" "noHit (beforeCollisions b r g)"
  shows "GameEngine_update b r g = tickScore (currentSpeed (beforeManagers b r g)) (beforeCollisions b r g)"
  using assms by (simp add: update_phases noHit_checkCollisions)

lemma quiet_tick_at_cap:
  assumes "state g = Playing" "\<not> isPaused g" "noHit (beforeCollisions b r g)"
    and "gameSpeed (stats g) = 12" "activePowerup (powerupManager g) \<noteq> Some Slowmo"
  shows "score (stats (GameEngine_update b r g)) = score (stats g) + 1"
    and "gameSpeed (stats (GameEngine_update b r g)) = 12"
    and "state (GameEngine_update b r g) = Playing"
    and "\<not> isPaused (GameEngine_update b r g)"
    and "activePowerup (powerupManager (GameEngine_update b r g)) \<noteq> Some Slowmo"
proof -
  have u: "GameEngine_update b r g =
      tickScore (currentSpeed (beforeManagers b r g)) (beforeCollisions b r g)"
    using assms(1-3) by (rule quiet_tick)
  have st: "stats (beforeManagers b r g) = (stats g)\<lparr>speedMultiplier := 1\<rparr>"
    using assms(4,5) by (simp add: beforeManagers_stats)
  have v: "currentSpeed (beforeManagers b r g) = 12"
    using assms(4) by (simp add: currentSpeed_def st)
  show "score (stats (GameEngine_update b r g)) = score (stats g) + 1"
    by (simp add: u v tickScore_def beforeCollisions_stats st)
  show "gameSpeed (stats (GameEngine_update b r g)) = 12"
    using assms(4) by (simp add: u tickScore_def beforeCollisions_stats st)
  show "state (GameEngine_update b r g) = Playing"
    using assms(1) by (simp add: u tickScore_def beforeCollisions_fields)
  show "\<not> isPaused (GameEngine_update b r g)"
    using assms(2) by (simp add: u tickScore_def beforeCollisions_fields)
  show "activePowerup (powerupManager (GameEngine_update b r g)) \<noteq> Some Slowmo"
    using assms(5) by (simp add: u tickScore_def beforeCollisions_fields)
qed

lemma quiet_ticks_at_cap:
  "state g = Playing \<Longrightarrow> \<not> isPaused g \<Longrightarrow> gameSpeed (stats g) = 12 \<Longrightarrow>
   activePowerup (powerupManager g) \<noteq> Some Slowmo \<Longrightarrow> quietRun b ts g \<Longrightarrow>
   score (stats (tickLoop b ts g)) = score (stats g) + int (length ts) \<and>
   gameSpeed (stats (tickLoop b ts g)) = 12"
proof (induction ts arbitrary: g)
  case Nil
  then show ?case by simp
next
  case (Cons t ts)
  obtain d r where t: "t = (d, r)" by (cases t)
  let ?h = "elapse d g"
  let ?g' = "GameEngine_update b r ?h"
  have h: "state ?h = Playing" "\<not> isPaused ?h" "gameSpeed (stats ?h) = 12"
    "activePowerup (powerupManager ?h) \<noteq> Some Slowmo"
    using Cons.prems(1-4) by (simp_all add: elapse_fields elapse_not_slowmo)
  from Cons.prems(5) t have q: "noHit (beforeCollisions b r ?h)" "quietRun b ts ?g'"
    by simp_all
  note step = quiet_tick_at_cap[OF h(1,2) q(1) h(3,4)]
  from Cons.IH[OF step(3,4,2,5) q(2)]
  have "score (stats (tickLoop b ts ?g')) = score (stats ?g') + int (length ts)"
    and "gameSpeed (stats (tickLoop b ts ?g')) = 12" by simp_all
  then show ?case using step(1) t by (simp add: elapse_fields)
qed

text \<open>
  Claim C5, as amended. From a running, unpaused game with \<^verbatim>\<open>gameSpeed = 12\<close> and
  \<^verbatim>\<open>speedMultiplier = 1\<close> in which the slow-motion power-up is not active, 500 ticks in
  a row whose collision passes find nothing add exactly 500 to the score and leave
  \<^verbatim>\<open>gameSpeed\<close> at 12, whatever time passes between the ticks and whichever timeouts
  fire.
\<close>

theorem score_at_speed_cap:
  "length ts = 500 \<and> state g = Playing \<and> \<not> isPaused g
   \<and> gameSpeed (stats g) = 12 \<and> speedMultiplier (stats g) = 1
   \<and> activePowerup (powerupManager g) \<noteq> Some Slowmo
   \<and> quietRun b ts g \<longrightarrow>
     score (stats (tickLoop b ts g)) = score (stats g) + 500
     \<and> gameSpeed (stats (tickLoop b ts g)) = 12"
  using quiet_ticks_at_cap[of g b ts] by simp


section \<open>Calm games\<close>

lemma calm_fire: "calm (fire c h) = calm h"
  by (cases c) (simp_all add: fire_def calm_def)

lemma calm_elapse:
  assumes "calm g"
  shows "calm (elapse d g)"
proof (rule elapse_preserves)
  show "calm (g\<lparr>now := now g + d, timers := filter (\<lambda>tc. \<not> fst tc \<le> now g + d) (timers g)\<rparr>)"
    using assms by (simp add: calm_def)
next
  fix c and h :: game
  assume "calm h"
  then show "calm (fire c h)" by (simp add: calm_fire)
qed

lemma Player_update_grounded:
  assumes "ypos p = 380" "velocityY p = 0"
  shows "ypos (Player_update p) = 380" and "velocityY (Player_update p) = 0"
  using assms by (simp_all add: Player_update_def Let_def gravity_def groundY_def)

lemma beforeManagers_player_pos:
  "ypos (player (beforeManagers b r g)) = ypos (Player_update (player g))"
  "velocityY (player (beforeManagers b r g)) = velocityY (Player_update (player g))"
  "height (player (beforeManagers b r g)) = height (Player_update (player g))"
  by (simp_all add: beforeManagers_def tickSpeed_def tickTrail_def tickPlayer_def
      tickFrame_def tickEffects_def PowerupManager_updateEffects_def Let_def)

lemma beforeCollisions_lists:
  "player (beforeCollisions b r g) = player (beforeManagers b r g)"
  "obstacleManager (beforeCollisions b r g) =
     ObstacleManager_update (currentSpeed (beforeManagers b r g)) (frameCount g + 1)
       (rObstacle r) (obstacleManager g)"
  "collectibleManager (beforeCollisions b r g) =
     CollectibleManager_update (currentSpeed (beforeManagers b r g)) (frameCount g + 1)
       (rCollectibleY r) (rCollectiblePhase r) (collectibleManager g)"
  "powerupManager (beforeCollisions b r g) =
     PowerupManager_update (currentSpeed (beforeManagers b r g)) (frameCount g + 1)
       (rPowerupGate r) (rPowerupType r) (rPowerupPhase r) (powerupManager g)"
  by (simp_all add: beforeCollisions_def Let_def tickParticles_def tickPowerups_def
      tickCollectibles_def tickObstacles_def beforeManagers_def tickSpeed_def tickTrail_def
      tickPlayer_def tickFrame_def tickEffects_def case_prod_unfold)

lemma obstacles_stay_high:
  assumes "\<forall>ob \<in> set (obstacles m). ypos ob + height ob \<le> 380"
  shows "\<forall>ob \<in> set (obstacles (ObstacleManager_update v fc half m)). ypos ob + height ob \<le> 380"
  using assms
  by (auto simp add: ObstacleManager_update_def ObstacleManager_spawn_def Let_def
      randomIndex_def Rep_half obstacleTypes_def)

lemma collectibles_stay_high:
  assumes "\<forall>col \<in> set (collectibles m). ypos col + height col \<le> 380"
  shows "\<forall>col \<in> set (collectibles (CollectibleManager_update v fc zero01 rp m)).
           ypos col + height col \<le> 380"
  using assms
  by (auto simp add: CollectibleManager_update_def CollectibleManager_spawn_def Let_def
      randomIndex_def Rep_zero01 yPositions_def)

lemma powerups_stay_high:
  assumes "\<forall>pu \<in> set (powerups m). ypos pu + height pu \<le> 380"
  shows "\<forall>pu \<in> set (powerups (PowerupManager_update v fc rg rt rp m)).
           ypos pu + height pu \<le> 380"
  using assms
  by (auto simp add: PowerupManager_update_def PowerupManager_spawn_def Let_def)

lemma calm_beforeCollisions:
  assumes "calm g"
  shows "calm (beforeCollisions b rQuiet g)"
  using assms obstacles_stay_high[of "obstacleManager g"] collectibles_stay_high[of "collectibleManager g"]
    powerups_stay_high[of "powerupManager g"]
  by (simp add: calm_def beforeCollisions_fields beforeCollisions_lists beforeManagers_player_pos
      Player_update_grounded rQuiet_def)

lemma calm_noHit: "calm g \<Longrightarrow> noHit g"
  by (auto simp add: calm_def noHit_def ObstacleManager_checkCollision_def
      CollectibleManager_checkCollision_def PowerupManager_checkCollision_def
      Player_getBounds_def isColliding_def find_None_iff Let_def)

lemma calm_tickScore: "calm (tickScore v g) = calm g"
  by (simp add: calm_def tickScore_def)

lemma calm_update:
  assumes "calm g"
  shows "noHit (beforeCollisions b rQuiet g)" and "calm (GameEngine_update b rQuiet g)"
proof -
  have c: "calm (beforeCollisions b rQuiet g)" using assms by (rule calm_beforeCollisions)
  then show n: "noHit (beforeCollisions b rQuiet g)" by (rule calm_noHit)
  have "state g = Playing" "\<not> isPaused g" using assms by (simp_all add: calm_def)
  then show "calm (GameEngine_update b rQuiet g)"
    using n c by (simp add: quiet_tick calm_tickScore)
qed

lemma calm_quietRun: "calm g \<Longrightarrow> quietRun b (replicate n (d, rQuiet)) g"
proof (induction n arbitrary: g)
  case 0
  then show ?case by simp
next
  case (Suc n)
  have "calm (elapse d g)" using Suc.prems by (rule calm_elapse)
  then show ?case using calm_update[of "elapse d g" b] Suc.IH by simp
qed

lemma calm_freshGame: "calm freshGame"
  by (simp add: calm_def freshGame_eq)

lemma calm_capGame: "calm capGame"
  using calm_freshGame by (simp add: calm_def capGame_def)

text \<open>
  A run that meets the hypotheses: 500 ticks, 16 ms apart, from the running game at the
  cap; every obstacle it spawns is a merge conflict, which ends at the player's top edge.
\<close>

theorem score_at_speed_cap_witness:
  "length (replicate 500 (16 :: nat, rQuiet)) = 500
   \<and> state capGame = Playing \<and> \<not> isPaused capGame
   \<and> gameSpeed (stats capGame) = 12 \<and> speedMultiplier (stats capGame) = 1
   \<and> activePowerup (powerupManager capGame) \<noteq> Some Slowmo
   \<and> quietRun Original (replicate 500 (16, rQuiet)) capGame
   \<and> score (stats (tickLoop Original (replicate 500 (16, rQuiet)) capGame)) = 500
   \<and> gameSpeed (stats (tickLoop Original (replicate 500 (16, rQuiet)) capGame)) = 12"
proof -
  have q: "quietRun Original (replicate 500 (16, rQuiet)) capGame"
    using calm_capGame by (rule calm_quietRun)
  have f: "state capGame = Playing" "\<not> isPaused capGame"
    "gameSpeed (stats capGame) = 12" "speedMultiplier (stats capGame) = 1"
    "activePowerup (powerupManager capGame) \<noteq> Some Slowmo" "score (stats capGame) = 0"
    by (simp_all add: capGame_def freshGame_eq)
  have l: "length (replicate 500 (16 :: nat, rQuiet)) = 500" by simp
  from score_at_speed_cap[of "replicate 500 (16, rQuiet)" capGame Original] l q f
  have "score (stats (tickLoop Original (replicate 500 (16, rQuiet)) capGame)) = 500
     \<and> gameSpeed (stats (tickLoop Original (replicate 500 (16, rQuiet)) capGame)) = 12"
    by simp
  then show ?thesis using l q f by blast
qed

section \<open>Slow motion\<close>

lemma elapse_early:
  assumes "timers g = [(w, c)]" "now g + d < w"
  shows "elapse d g = g\<lparr>now := now g + d\<rparr>"
  using assms by (simp add: elapse_def Let_def)

lemma beforeCollisions_now: "now (beforeCollisions b r g) = now g"
  by (simp add: beforeCollisions_def Let_def tickParticles_def tickPowerups_def
      tickCollectibles_def tickObstacles_def beforeManagers_def tickSpeed_def tickTrail_def
      tickPlayer_def tickFrame_def tickEffects_def case_prod_unfold)

lemma slow_ticks:
  "calm g \<Longrightarrow> gameSpeed (stats g) = 12 \<Longrightarrow> activePowerup (powerupManager g) = Some Slowmo \<Longrightarrow>
   timers g = [(5000, PowerupOff)] \<Longrightarrow> now g + 8 * n < 5000 \<Longrightarrow>
   score (stats (tickLoop b (replicate n (8, rQuiet)) g)) = score (stats g)"
proof (induction n arbitrary: g)
  case 0
  then show ?case by simp
next
  case (Suc n)
  let ?h = "g\<lparr>now := now g + 8\<rparr>"
  let ?g' = "GameEngine_update b rQuiet ?h"
  have e: "elapse 8 g = ?h" using Suc.prems(4,5) by (simp add: elapse_early)
  have ch: "calm ?h" using Suc.prems(1) by (simp add: calm_def)
  have pl: "state ?h = Playing" "\<not> isPaused ?h" using ch by (simp_all add: calm_def)
  have u: "?g' = tickScore (currentSpeed (beforeManagers b rQuiet ?h)) (beforeCollisions b rQuiet ?h)"
    using pl calm_update(1)[OF ch] by (rule quiet_tick)
  have st: "stats (beforeManagers b rQuiet ?h) = (stats g)\<lparr>speedMultiplier := 0.5\<rparr>"
    using Suc.prems(2,3) by (simp add: beforeManagers_stats)
  have v: "currentSpeed (beforeManagers b rQuiet ?h) = 6"
    using Suc.prems(2) by (simp add: currentSpeed_def st)
  have sc: "score (stats ?g') = score (stats g)"
    by (simp add: u v tickScore_def beforeCollisions_stats st)
  have 1: "calm ?g'" using ch by (rule calm_update(2))
  have 2: "gameSpeed (stats ?g') = 12"
    using Suc.prems(2) by (simp add: u tickScore_def beforeCollisions_stats st)
  have 3: "activePowerup (powerupManager ?g') = Some Slowmo"
    using Suc.prems(3) by (simp add: u tickScore_def beforeCollisions_fields)
  have 4: "timers ?g' = [(5000, PowerupOff)]"
    using Suc.prems(4) by (simp add: u tickScore_def beforeCollisions_fields)
  have 5: "now ?g' + 8 * n < 5000"
    using Suc.prems(5) by (simp add: u tickScore_def beforeCollisions_now)
  from Suc.IH[OF 1 2 3 4 5] sc show ?case by (simp add: e)
qed

lemma rep40:
  "replicate 40 x =
     [x, x, x, x, x, x, x, x, x, x,
      x, x, x, x, x, x, x, x, x, x,
      x, x, x, x, x, x, x, x, x, x,
      x, x, x, x, x, x, x, x, x, x]"
  by (simp add: eval_nat_numeral)

lemma tickLoop_append: "tickLoop b (ts @ us) g = tickLoop b us (tickLoop b ts g)"
  by (induction ts arbitrary: g) auto

lemma quietRun_append:
  "quietRun b (ts @ us) g = (quietRun b ts g \<and> quietRun b us (tickLoop b ts g))"
  by (induction ts arbitrary: g) auto

lemma afterPickup_fields:
  "state afterPickup = Playing" "\<not> isPaused afterPickup"
  "gameSpeed (stats afterPickup) = 12" "speedMultiplier (stats afterPickup) = 1"
  "score (stats afterPickup) = 14201"
  "activePowerup (powerupManager afterPickup) = Some Slowmo"
  by (simp_all add: afterPickup_def slowPickup_def tick_defs run_defs Let_def cong: let_weak_cong)

lemma flight:
  "tickLoop Original (replicate 40 (8, rQuiet)) afterPickup = landed"
  by (simp add: rep40 afterPickup_def slowPickup_def landed_def tick_defs run_defs Let_def
      cong: let_weak_cong)

lemma flight_quiet:
  "quietRun Original (replicate 40 (8, rQuiet)) afterPickup"
  by (simp add: rep40 afterPickup_def slowPickup_def tick_defs run_defs Let_def
      cong: let_weak_cong)

lemma calm_landed: "calm landed"
  by (simp add: calm_def landed_def)

text \<open>
  Without the condition on the power-up the statement fails. In the game right after a
  slow-motion pickup \<^verbatim>\<open>speedMultiplier\<close> is still 1; \<^verbatim>\<open>updateEffects\<close> sets it to
  0.5 on the next tick, the speed is 6 and each tick adds \<open>\<lfloor>6 / 10\<rfloor> = 0\<close>. The first
  forty ticks, until the player lands, are evaluated; the other 460 follow from
  \<open>slow_ticks\<close>. The ticks are 8 ms apart, so the power-up does not expire during the
  run, and the score does not move.
\<close>

theorem score_at_speed_cap_counterexample:
  "length (replicate 500 (8 :: nat, rQuiet)) = 500
   \<and> state afterPickup = Playing \<and> \<not> isPaused afterPickup
   \<and> gameSpeed (stats afterPickup) = 12 \<and> speedMultiplier (stats afterPickup) = 1
   \<and> quietRun Original (replicate 500 (8, rQuiet)) afterPickup
   \<and> score (stats afterPickup) = 14201
   \<and> score (stats (tickLoop Original (replicate 500 (8, rQuiet)) afterPickup)) = 14201"
proof -
  have split: "replicate 500 (8 :: nat, rQuiet) = replicate 40 (8, rQuiet) @ replicate 460 (8, rQuiet)"
    by (simp add: replicate_add[symmetric])
  have l: "gameSpeed (stats landed) = 12" "activePowerup (powerupManager landed) = Some Slowmo"
    "timers landed = [(5000, PowerupOff)]" "now landed + 8 * 460 < 5000"
    "score (stats landed) = 14201"
    by (simp_all add: landed_def)
  have rest: "score (stats (tickLoop Original (replicate 460 (8, rQuiet)) landed)) = score (stats landed)"
    using calm_landed l(1-4) by (rule slow_ticks)
  have q: "quietRun Original (replicate 500 (8, rQuiet)) afterPickup"
    unfolding split quietRun_append flight
    using flight_quiet calm_quietRun[OF calm_landed] by simp
  have s: "score (stats (tickLoop Original (replicate 500 (8, rQuiet)) afterPickup)) = 14201"
    unfolding split tickLoop_append flight using rest l(5) by simp
  show ?thesis using q s afterPickup_fields by simp
qed

section \<open>Invincibility\<close>

lemma shield_fire:
  assumes "shieldHolds h" "c \<noteq> InvincibleOff"
  shows "shieldHolds (fire c h)"
  using assms by (cases c) (simp_all add: shieldHolds_def damageTimerPending_def fire_def)

lemma shield_elapse:
  assumes "shieldHolds g"
  shows "shieldHolds (elapse d g)"
proof (rule elapse_preserves)
  show "shieldHolds (g\<lparr>now := now g + d,
      timers := filter (\<lambda>tc. \<not> fst tc \<le> now g + d) (timers g)\<rparr>)"
    using assms by (auto simp add: shieldHolds_def damageTimerPending_def)
next
  fix c and h :: game
  assume h: "shieldHolds h"
  assume "c \<in> snd ` set (timers g)"
  moreover have "InvincibleOff \<notin> snd ` set (timers g)"
    using assms by (simp add: shieldHolds_def damageTimerPending_def)
  ultimately have "c \<noteq> InvincibleOff" by blast
  with h show "shieldHolds (fire c h)" by (rule shield_fire)
qed

lemma Player_update_invincible: "invincible (Player_update p) = invincible p"
  by (simp add: Player_update_def Let_def)

lemma beforeCollisions_invincible:
  "invincible (player (beforeCollisions b r g)) =
     (invincible (player g) \<or> activePowerup (powerupManager g) = Some Invincibility)"
  by (auto simp add: beforeCollisions_lists beforeManagers_def tickSpeed_def tickTrail_def
      tickPlayer_def tickFrame_def tickEffects_def PowerupManager_updateEffects_def Let_def
      Player_update_invincible)

lemma checkCollectible_timers: "timers (checkCollectible b r g) = timers g"
  by (cases b) (simp_all add: checkCollectible_def GameEngine_handleCollectible_def Let_def
      split: option.split)

lemma checkPowerup_timers:
  "snd ` set (timers (checkPowerup b r g)) \<subseteq> insert PowerupOff (snd ` set (timers g))"
  by (auto simp add: checkPowerup_def GameEngine_handlePowerup_def
      PowerupManager_activatePowerup_def Let_def split: option.split)

lemma shield_checkCollisions:
  assumes "shieldHolds g"
  shows "shieldHolds (GameEngine_checkCollisions b r g)"
proof -
  have inv: "invincible (player g)" and np: "InvincibleOff \<notin> snd ` set (timers g)"
    using assms by (simp_all add: shieldHolds_def damageTimerPending_def)
  have o: "checkObstacle b r g = g" using inv by (rule checkObstacle_invincible)
  have p: "player (GameEngine_checkCollisions b r g) = player g"
    by (simp add: GameEngine_checkCollisions_def o checkPowerup_fields checkCollectible_fields)
  have "snd ` set (timers (GameEngine_checkCollisions b r g)) \<subseteq>
      insert PowerupOff (snd ` set (timers g))"
    using checkPowerup_timers[of b r "checkCollectible b r g"]
    by (simp add: GameEngine_checkCollisions_def o checkCollectible_timers)
  with np have "InvincibleOff \<notin> snd ` set (timers (GameEngine_checkCollisions b r g))"
    by auto
  with inv p show ?thesis by (simp add: shieldHolds_def damageTimerPending_def)
qed

lemma shield_tickScore: "shieldHolds (tickScore v g) = shieldHolds g"
  by (simp add: shieldHolds_def damageTimerPending_def tickScore_def)

text \<open>A tick that runs with the power-up active, or with the shield already holding.\<close>

lemma shield_update_playing:
  assumes "state g = Playing" "\<not> isPaused g" "\<not> damageTimerPending g"
    and "invincible (player g) \<or> activePowerup (powerupManager g) = Some Invincibility"
  shows "shieldHolds (GameEngine_update b r g)"
proof -
  have "shieldHolds (beforeCollisions b r g)"
    using assms(3,4)
    by (simp add: shieldHolds_def damageTimerPending_def beforeCollisions_invincible
        beforeCollisions_fields)
  then have "shieldHolds (GameEngine_checkCollisions b r (beforeCollisions b r g))"
    by (rule shield_checkCollisions)
  then show ?thesis using assms(1,2) by (simp add: update_phases shield_tickScore)
qed

lemma shield_update:
  assumes "shieldHolds g"
  shows "shieldHolds (GameEngine_update b r g)"
proof (cases "state g = Playing \<and> \<not> isPaused g")
  case True
  from assms have "\<not> damageTimerPending g" "invincible (player g)"
    by (simp_all add: shieldHolds_def)
  with True show ?thesis by (intro shield_update_playing) auto
next
  case False
  then show ?thesis using assms by (simp add: update_noop)
qed

lemma shield_onKeyDown: "shieldHolds g \<Longrightarrow> shieldHolds (onKeyDown k g)"
  by (simp add: shieldHolds_def damageTimerPending_def onKeyDown_def Let_def Player_jump_def
      Player_slide_def GameEngine_pauseGame_def GameEngine_resumeGame_def)

lemma shield_touch:
  assumes "shieldHolds g"
  shows "shieldHolds (onJumpBtn g)" and "shieldHolds (onSlideBtn g)"
    and "shieldHolds (onCanvasTouchStart cx cy g)" and "shieldHolds (onCanvasTouchEnd cx cy g)"
  using assms
  by (simp_all add: shieldHolds_def damageTimerPending_def onJumpBtn_def onSlideBtn_def
      onCanvasTouchStart_def onCanvasTouchEnd_def GameEngine_handleSwipeGesture_def Let_def
      Player_jump_def Player_slide_def)

lemma shield_onClick:
  assumes "shieldHolds g" "bt \<noteq> StartBtn" "bt \<noteq> RestartBtn"
  shows "shieldHolds (onClick bt g)"
  using assms
  by (cases bt) (simp_all add: shieldHolds_def damageTimerPending_def onClick_def
      GameEngine_resumeGame_def)

lemma shield_onChange: "shieldHolds g \<Longrightarrow> shieldHolds (onChange tg v g)"
  by (cases tg) (simp_all add: shieldHolds_def damageTimerPending_def onChange_def)

lemma shield_step:
  assumes "shieldHolds g" "\<not> isRestart e"
  shows "shieldHolds (step b e g)"
proof (cases e)
  case (Elapse d)
  then show ?thesis using assms(1) by (simp add: step_def shield_elapse)
next
  case (Frame r)
  then show ?thesis using assms(1) by (simp add: step_def shield_update)
next
  case (KeyDown k)
  then show ?thesis using assms(1) by (simp add: step_def shield_onKeyDown)
next
  case (Click bt)
  with assms(2) have "bt \<noteq> StartBtn" "bt \<noteq> RestartBtn" by auto
  then show ?thesis using Click assms(1) by (simp add: step_def shield_onClick)
next
  case (Change tg v)
  then show ?thesis using assms(1) by (simp add: step_def shield_onChange)
next
  case JumpBtnTouch
  then show ?thesis using assms(1) by (simp add: step_def shield_touch)
next
  case SlideBtnTouch
  then show ?thesis using assms(1) by (simp add: step_def shield_touch)
next
  case (CanvasTouchStart cx cy)
  then show ?thesis using assms(1) by (simp add: step_def shield_touch)
next
  case (CanvasTouchEnd cx cy)
  then show ?thesis using assms(1) by (simp add: step_def shield_touch)
qed

lemma shield_run:
  "shieldHolds g \<Longrightarrow> \<forall>e \<in> set es. \<not> isRestart e \<Longrightarrow> shieldHolds (run b es g)"
  unfolding run_def
  by (induction es arbitrary: g) (simp_all add: shield_step)

lemma updateEffects_keeps_invincible:
  "invincible p \<Longrightarrow> invincible (fst (PowerupManager_updateEffects m p st))"
  by (simp add: PowerupManager_updateEffects_def Let_def)

text \<open>
  Claim C10, as amended. Let a tick run in a playing, unpaused game while the
  invincibility power-up is active and no timeout of the damage handler is pending. Then
  \<^verbatim>\<open>player.invincible\<close> is true after that tick and after every later event (frames,
  passing time with the timeouts it fires, keys, touches, toggles, buttons) as long as no
  new game is started, and no damage timeout becomes pending again. The reasons:
  \<^verbatim>\<open>updateEffects\<close> never clears the flag, the expiry of the power-up does not touch the
  player, and the obstacle block, the only caller of the damage handler, does nothing
  while the flag is set.
\<close>

theorem invincibility_outlasts_powerup:
  "(state g = Playing \<and> \<not> isPaused g
    \<and> activePowerup (powerupManager g) = Some Invincibility
    \<and> \<not> damageTimerPending g \<and> (\<forall>e \<in> set es. \<not> isRestart e) \<longrightarrow>
      invincible (player (GameEngine_update b r g))
      \<and> invincible (player (run b es (GameEngine_update b r g)))
      \<and> \<not> damageTimerPending (run b es (GameEngine_update b r g)))
   \<and> (invincible p \<longrightarrow> invincible (fst (PowerupManager_updateEffects m p st)))
   \<and> player (fire PowerupOff h) = player h
   \<and> (invincible (player h) \<longrightarrow> checkObstacle b r h = h)"
proof (intro conjI impI)
  assume a: "state g = Playing \<and> \<not> isPaused g
    \<and> activePowerup (powerupManager g) = Some Invincibility
    \<and> \<not> damageTimerPending g \<and> (\<forall>e \<in> set es. \<not> isRestart e)"
  then have s: "shieldHolds (GameEngine_update b r g)"
    by (simp add: shield_update_playing)
  then show "invincible (player (GameEngine_update b r g))" by (simp add: shieldHolds_def)
  from s a have "shieldHolds (run b es (GameEngine_update b r g))"
    by (simp add: shield_run)
  then show "invincible (player (run b es (GameEngine_update b r g)))"
    and "\<not> damageTimerPending (run b es (GameEngine_update b r g))"
    by (simp_all add: shieldHolds_def)
next
  assume "invincible p"
  then show "invincible (fst (PowerupManager_updateEffects m p st))"
    by (rule updateEffects_keeps_invincible)
next
  show "player (fire PowerupOff h) = player h" by (simp add: fire_def)
next
  assume "invincible (player h)"
  then show "checkObstacle b r h = h" by (rule checkObstacle_invincible)
qed

text \<open>
  In the example the power-up expires during the six seconds without a frame, and the
  player is still invincible at the end.
\<close>

theorem invincibility_outlasts_powerup_witness:
  "state shieldGame = Playing \<and> \<not> isPaused shieldGame
   \<and> activePowerup (powerupManager shieldGame) = Some Invincibility
   \<and> \<not> damageTimerPending shieldGame
   \<and> invincible (player (GameEngine_update Original rQuiet shieldGame))
   \<and> invincible (player (run Original afterwards (GameEngine_update Original rQuiet shieldGame)))
   \<and> activePowerup (powerupManager
        (run Original afterwards (GameEngine_update Original rQuiet shieldGame))) = None"
proof -
  have f: "state shieldGame = Playing" "\<not> isPaused shieldGame"
    "activePowerup (powerupManager shieldGame) = Some Invincibility"
    "\<not> damageTimerPending shieldGame"
    by (simp_all add: shieldGame_def freshGame_eq damageTimerPending_def)
  have e: "\<forall>e \<in> set afterwards. \<not> isRestart e"
    by (simp add: afterwards_def)
  from invincibility_outlasts_powerup[of shieldGame afterwards Original rQuiet] f e
  have i: "invincible (player (GameEngine_update Original rQuiet shieldGame))"
    "invincible (player (run Original afterwards (GameEngine_update Original rQuiet shieldGame)))"
    by simp_all
  have n: "activePowerup (powerupManager
        (run Original afterwards (GameEngine_update Original rQuiet shieldGame))) = None"
    by (simp add: shieldGame_def freshGame_eq afterwards_def run_def step_def elapse_def fire_def
        onKeyDown_def isPauseKey_def onClick_def GameEngine_pauseGame_def GameEngine_resumeGame_def
        Player_jump_def jumpForce_def settingsOn_def
        tick_defs Let_def cong: let_weak_cong)
  show ?thesis using f i n by blast
qed

text \<open>
  A damage timeout that is pending when the power-up is picked up does clear the flag.
  In one tick the player hits the spike (one life lost, invincible, timeout due at 1500 ms)
  and picks up the power-up (expiry due at 5000 ms). The next tick runs with the power-up
  active. Then no frame runs for five seconds; both timeouts fire, and at the tick after
  them the player is not invincible.
\<close>

theorem invincibility_outlasts_powerup_counterexample:
  "activePowerup (powerupManager (run Original [Frame rQuiet] struck)) = Some Invincibility
   \<and> activePowerup (powerupManager (run Original [Frame rQuiet, Elapse 16, Frame rQuiet] struck))
       = Some Invincibility
   \<and> invincible (player (run Original [Frame rQuiet, Elapse 16, Frame rQuiet] struck))
   \<and> \<not> invincible (player
          (run Original [Frame rQuiet, Elapse 16, Frame rQuiet, Elapse 5000, Frame rQuiet] struck))"
  by (simp add: struck_def run_def step_def elapse_def fire_def tick_defs Let_def
      cong: let_weak_cong)


text \<open>
  And a power-up that expires before the next tick never sets the flag: only
  \<^verbatim>\<open>updateEffects\<close> sets it, on a tick.
\<close>

lemma invincibility_never_applied:
  "activePowerup (powerupManager (run Original [Frame rQuiet] jumpedAt)) = Some Invincibility
   \<and> \<not> invincible (player (run Original [Frame rQuiet, Elapse 5000, Frame rQuiet] jumpedAt))"
  by (simp add: jumpedAt_def struck_def run_def step_def elapse_def fire_def tick_defs Let_def
      cong: let_weak_cong)

end
